theory Spec2Isabelle
  imports
    Main
    "HOL-Library.Word"
    "HOL-Library.AList"
    "HOL-Library.Char_ord"
    "HOL-Library.List_Lexorder"
    "HOL-Library.Multiset"
begin

unbundle bit_operations_syntax

section \<open>Python values and their string form\<close>

text \<open>
  The option values of \<^verbatim>\<open>explib/base.py\<close> are Python objects read from a configuration
  file or passed as keyword arguments.  The model keeps the scalar ones.  \<open>py_str\<close> is
  Python 2's \<^verbatim>\<open>str()\<close>, which is what \<^verbatim>\<open>'%s' % v\<close> prints: a string prints as
  itself, without quotes.
\<close>

datatype pyval = PyNone | PyBool bool | PyInt int | PyStr string

definition digit_chr :: "nat \<Rightarrow> char" where
  "digit_chr d = ''0123456789'' ! d"

fun str_nat :: "nat \<Rightarrow> string" where
  "str_nat n = (if n < 10 then [digit_chr n] else str_nat (n div 10) @ [digit_chr (n mod 10)])"

declare str_nat.simps [simp del]

definition str_int :: "int \<Rightarrow> string" where
  "str_int i = (if i < 0 then ''-'' @ str_nat (nat (- i)) else str_nat (nat i))"

fun py_str :: "pyval \<Rightarrow> string" where
  "py_str PyNone = ''None''"
| "py_str (PyBool b) = (if b then ''True'' else ''False'')"
| "py_str (PyInt i) = str_int i"
| "py_str (PyStr s) = s"

text \<open>\<^verbatim>\<open>sep.join(xs)\<close>.\<close>

fun join :: "string \<Rightarrow> string list \<Rightarrow> string" where
  "join sep [] = []"
| "join sep [x] = x"
| "join sep (x # y # ys) = x @ sep @ join sep (y # ys)"

text \<open>\<^verbatim>\<open>'%3d' % i\<close> for an index \<open>i \<ge> 0\<close>: decimal, right-justified in three columns.\<close>

definition fmt_3d :: "nat \<Rightarrow> string" where
  "fmt_3d i = replicate (3 - length (str_nat i)) CHR '' '' @ str_nat i"

definition quote :: "string \<Rightarrow> string" where
  "quote s = [CHR 0x27] @ s @ [CHR 0x27]"

section \<open>Exceptions and the logger\<close>

datatype exn =
    KeyError string
  | ValueError string
  | AttributeError string
  | IOError
  | Exception string

datatype level = INFO | WARNING | ERROR

text \<open>
  A log record: level, message, and the exception whose traceback is attached when the
  call passes \<^verbatim>\<open>exc_info=1\<close>.  A message logged without arguments is emitted as it is
  written (the \<^verbatim>\<open>logging\<close> module applies \<^verbatim>\<open>%\<close> only when arguments are given).
\<close>

datatype log_record = Log level string "exn option"

section \<open>Option\<close>

text \<open>
  An \<^verbatim>\<open>Option\<close> object is its \<^verbatim>\<open>__dict__\<close>: an association list with one entry per
  field.  Keyword arguments are a list of pairs in the order in which
  \<^verbatim>\<open>kwargs.iteritems()\<close> yields them.
\<close>

type_synonym pydict = "(string \<times> pyval) list"

definition Option_init :: "pydict \<Rightarrow> pydict" where
  "Option_init kwargs = fold (\<lambda>(k, v). AList.update k v) kwargs []"

text \<open>
  \<^verbatim>\<open>Option.__str__\<close>: the pairs sorted (by key, the keys of a dict being distinct),
  each printed \<^verbatim>\<open>'%s=%s'\<close>, joined by \<^verbatim>\<open>', '\<close>, inside \<^verbatim>\<open>Option(...)\<close>.
\<close>

definition Option_str :: "pydict \<Rightarrow> string" where
  "Option_str d =
     ''Option('' @ join '', '' (map (\<lambda>(k, v). k @ ''='' @ py_str v) (sort_key fst d)) @ '')''"

text \<open>
  \<^verbatim>\<open>Option.update\<close> assigns in place, key after key, and raises at the first key that is
  not a field.  The result is the exception, if any, and the dict as the call leaves it.
\<close>

fun Option_update :: "pydict \<Rightarrow> pydict \<Rightarrow> exn option \<times> pydict" where
  "Option_update d [] = (None, d)"
| "Option_update d ((k, v) # kwargs) =
     (if k \<in> set (map fst d) then Option_update (AList.update k v d) kwargs
      else (Some (KeyError (quote k @ '' is not a valid parameter.'')), d))"

section \<open>Default options and component construction\<close>

text \<open>
  The sections of \<^verbatim>\<open>explib/DefaultOption.conf\<close>, each a list of items whose values have
  been evaluated already, are a parameter of the model.
\<close>

type_synonym config = "string \<Rightarrow> pydict option"

definition startswith :: "string \<Rightarrow> string \<Rightarrow> bool" where
  "startswith s p = (take (length p) s = p)"

definition strip_role :: "string \<Rightarrow> string \<Rightarrow> string" where
  "strip_role name possible =
     (if startswith (drop 3 name) possible then drop (3 + length possible) name else name)"

definition getDefaultOption :: "config \<Rightarrow> string \<Rightarrow> log_record list \<Rightarrow> (exn + pydict) \<times> log_record list" where
  "getDefaultOption cfg name lg =
     (case cfg name of
        None \<Rightarrow>
          (Inr (Option_init (AList.update ''name''
                  (PyStr (foldl strip_role name [''Dataset'', ''Model'', ''Metric'', ''Setting''])) [])),
           lg @ [Log INFO (''Cannot get default option of '' @ name @ ''.'') None])
      | Some items \<Rightarrow>
          if items = [] then (Inl (ValueError ''need more than 0 values to unpack''), lg)
          else
            (Inr (Option_init (AList.update ''name''
                    (PyStr (foldl strip_role name [''Dataset'', ''Model'', ''Metric'', ''Setting'']))
                    (Option_init items))),
             lg))"

text \<open>
  \<^verbatim>\<open>expBase.__init__\<close>, run by \<^verbatim>\<open>cls(**kwargs)\<close> for a component class named \<open>cls\<close>:
  the defaults of the class, updated by the keyword arguments.
\<close>

definition expBase_init :: "config \<Rightarrow> string \<Rightarrow> pydict \<Rightarrow> log_record list \<Rightarrow> (exn + pydict) \<times> log_record list" where
  "expBase_init cfg cls kwargs lg =
     (case getDefaultOption cfg cls lg of
        (Inl e, lg') \<Rightarrow> (Inl e, lg')
      | (Inr d, lg') \<Rightarrow>
          (case Option_update d kwargs of
             (Some e, _) \<Rightarrow> (Inl e, lg')
           | (None, d') \<Rightarrow> (Inr d', lg')))"

section \<open>The MD5 digest\<close>

text \<open>
  \<^verbatim>\<open>hashlib.md5\<close> is the MD5 message digest of RFC 1321: the message padded to a
  multiple of 64 bytes, cut into blocks of sixteen little-endian 32-bit words, each block
  mixed into four 32-bit registers by 64 steps; the digest is the registers, printed
  in hexadecimal, low byte first.
\<close>

type_synonym u32 = "32 word"

definition md5_K :: "u32 list" where
  "md5_K = [0xd76aa478, 0xe8c7b756, 0x242070db, 0xc1bdceee, 0xf57c0faf, 0x4787c62a, 0xa8304613, 0xfd469501, 0x698098d8, 0x8b44f7af, 0xffff5bb1, 0x895cd7be, 0x6b901122, 0xfd987193, 0xa679438e, 0x49b40821, 0xf61e2562, 0xc040b340, 0x265e5a51, 0xe9b6c7aa, 0xd62f105d, 0x02441453, 0xd8a1e681, 0xe7d3fbc8, 0x21e1cde6, 0xc33707d6, 0xf4d50d87, 0x455a14ed, 0xa9e3e905, 0xfcefa3f8, 0x676f02d9, 0x8d2a4c8a, 0xfffa3942, 0x8771f681, 0x6d9d6122, 0xfde5380c, 0xa4beea44, 0x4bdecfa9, 0xf6bb4b60, 0xbebfbc70, 0x289b7ec6, 0xeaa127fa, 0xd4ef3085, 0x04881d05, 0xd9d4d039, 0xe6db99e5, 0x1fa27cf8, 0xc4ac5665, 0xf4292244, 0x432aff97, 0xab9423a7, 0xfc93a039, 0x655b59c3, 0x8f0ccc92, 0xffeff47d, 0x85845dd1, 0x6fa87e4f, 0xfe2ce6e0, 0xa3014314, 0x4e0811a1, 0xf7537e82, 0xbd3af235, 0x2ad7d2bb, 0xeb86d391]"

definition md5_s :: "nat list" where
  "md5_s = [7, 12, 17, 22, 7, 12, 17, 22, 7, 12, 17, 22, 7, 12, 17, 22,
            5, 9, 14, 20, 5, 9, 14, 20, 5, 9, 14, 20, 5, 9, 14, 20,
            4, 11, 16, 23, 4, 11, 16, 23, 4, 11, 16, 23, 4, 11, 16, 23,
            6, 10, 15, 21, 6, 10, 15, 21, 6, 10, 15, 21, 6, 10, 15, 21]"

definition md5_F :: "nat \<Rightarrow> u32 \<Rightarrow> u32 \<Rightarrow> u32 \<Rightarrow> u32" where
  "md5_F i b c d =
     (if i < 16 then (b AND c) OR (NOT b AND d)
      else if i < 32 then (d AND b) OR (NOT d AND c)
      else if i < 48 then b XOR c XOR d
      else c XOR (b OR NOT d))"

definition md5_g :: "nat \<Rightarrow> nat" where
  "md5_g i =
     (if i < 16 then i
      else if i < 32 then (5 * i + 1) mod 16
      else if i < 48 then (3 * i + 5) mod 16
      else (7 * i) mod 16)"

definition rotl32 :: "nat \<Rightarrow> u32 \<Rightarrow> u32" where
  "rotl32 n w = push_bit n w OR drop_bit (32 - n) w"

definition md5_step :: "u32 list \<Rightarrow> u32 \<times> u32 \<times> u32 \<times> u32 \<Rightarrow> nat \<Rightarrow> u32 \<times> u32 \<times> u32 \<times> u32" where
  "md5_step M st i =
     (case st of (a, b, c, d) \<Rightarrow>
        (d, b + rotl32 (md5_s ! i) (md5_F i b c d + a + md5_K ! i + M ! md5_g i), b, c))"

definition md5_block :: "u32 \<times> u32 \<times> u32 \<times> u32 \<Rightarrow> u32 list \<Rightarrow> u32 \<times> u32 \<times> u32 \<times> u32" where
  "md5_block st M =
     (case st of (a0, b0, c0, d0) \<Rightarrow>
        case foldl (md5_step M) st [0..<64] of (a, b, c, d) \<Rightarrow> (a0 + a, b0 + b, c0 + c, d0 + d))"

text \<open>Padding: the byte \<open>0x80\<close>, zeros up to 56 modulo 64, and the bit length in 8 bytes.\<close>

definition md5_length :: "8 word list \<Rightarrow> 8 word list" where
  "md5_length bs =
     (let n = (of_nat (8 * length bs) :: 64 word)
      in [ucast n, ucast (drop_bit 8 n), ucast (drop_bit 16 n), ucast (drop_bit 24 n),
          ucast (drop_bit 32 n), ucast (drop_bit 40 n), ucast (drop_bit 48 n), ucast (drop_bit 56 n)])"

definition md5_pad :: "8 word list \<Rightarrow> 8 word list" where
  "md5_pad bs = bs @ [0x80] @ replicate ((119 - length bs mod 64) mod 64) 0 @ md5_length bs"

fun md5_words :: "8 word list \<Rightarrow> u32 list" where
  "md5_words (b0 # b1 # b2 # b3 # bs) =
     (ucast b0 OR push_bit 8 (ucast b1) OR push_bit 16 (ucast b2) OR push_bit 24 (ucast b3))
       # md5_words bs"
| "md5_words bs = []"

fun md5_blocks :: "u32 \<times> u32 \<times> u32 \<times> u32 \<Rightarrow> u32 list \<Rightarrow> u32 \<times> u32 \<times> u32 \<times> u32" where
  "md5_blocks st ws =
     (if length ws < 16 then st else md5_blocks (md5_block st (take 16 ws)) (drop 16 ws))"

declare md5_blocks.simps [simp del]

definition md5_digest :: "8 word list \<Rightarrow> u32 \<times> u32 \<times> u32 \<times> u32" where
  "md5_digest bs =
     md5_blocks (0x67452301, 0xefcdab89, 0x98badcfe, 0x10325476) (md5_words (md5_pad bs))"

definition hexdigit :: "nat \<Rightarrow> char" where
  "hexdigit n = ''0123456789abcdef'' ! n"

definition hex_byte :: "8 word \<Rightarrow> string" where
  "hex_byte b = [hexdigit (unat (drop_bit 4 b)), hexdigit (unat (b AND 15))]"

definition hex_word :: "u32 \<Rightarrow> string" where
  "hex_word w =
     hex_byte (ucast w) @ hex_byte (ucast (drop_bit 8 w)) @ hex_byte (ucast (drop_bit 16 w))
       @ hex_byte (ucast (drop_bit 24 w))"

definition md5_hexdigest :: "string \<Rightarrow> string" where
  "md5_hexdigest s =
     (case md5_digest (map of_char s) of (a, b, c, d) \<Rightarrow> hex_word a @ hex_word b @ hex_word c @ hex_word d)"

section \<open>Components, the object heap and the world\<close>

text \<open>
  An instance of a component class (\<^verbatim>\<open>expBase\<close> and its subclasses \<^verbatim>\<open>expDataset\<close>,
  \<^verbatim>\<open>expModel\<close>) carries its class name and its \<^verbatim>\<open>_opts\<close>.  A metric adds the list
  \<^verbatim>\<open>values\<close>, a setting the fields that \<^verbatim>\<open>setup\<close> assigns.  Metrics and settings are
  mutable objects shared by reference, so they live in a heap and are named by their
  address; every reference resolves to an object, as in Python.
\<close>

record expBase =
  cls :: string
  opts :: pydict

type_synonym expDataset = expBase
type_synonym expModel = expBase
type_synonym ref = nat

record expMetric = expBase +
  m_values :: "pyval list"

record expSetting = expBase +
  s_dataset :: "expDataset option"
  s_model :: "expModel option"
  s_metrics :: "ref list"

text \<open>
  \<^verbatim>\<open>expMetric.__init__\<close> and \<^verbatim>\<open>expSetting.__init__\<close>: the construction of the base class,
  then the fields of the subclass; a metric starts with no values.
\<close>

definition expMetric_init :: "config \<Rightarrow> string \<Rightarrow> pydict \<Rightarrow> log_record list \<Rightarrow> (exn + expMetric) \<times> log_record list" where
  "expMetric_init cfg c kwargs lg =
     (case expBase_init cfg c kwargs lg of
        (Inl e, lg') \<Rightarrow> (Inl e, lg')
      | (Inr d, lg') \<Rightarrow> (Inr \<lparr>cls = c, opts = d, m_values = []\<rparr>, lg'))"

definition expSetting_init :: "config \<Rightarrow> string \<Rightarrow> pydict \<Rightarrow> log_record list \<Rightarrow> (exn + expSetting) \<times> log_record list" where
  "expSetting_init cfg c kwargs lg =
     (case expBase_init cfg c kwargs lg of
        (Inl e, lg') \<Rightarrow> (Inl e, lg')
      | (Inr d, lg') \<Rightarrow>
          (Inr \<lparr>cls = c, opts = d, s_dataset = None, s_model = None, s_metrics = []\<rparr>, lg'))"

record heap =
  metric_objs :: "ref \<Rightarrow> expMetric"
  setting_objs :: "ref \<Rightarrow> expSetting"

record expProfile =
  p_dataset :: expDataset
  p_model :: expModel
  p_metrics :: "ref list"
  p_setting :: "ref option"
  p_save_dir :: string
  p_overwrite :: bool

text \<open>The dict of \<^verbatim>\<open>get_options\<close>, and the record that \<^verbatim>\<open>run\<close> saves.\<close>

record options =
  o_dataset :: pydict
  o_model :: pydict
  o_setting :: pydict
  o_metrics :: "pydict list"

record result =
  Options :: options
  Metrics :: "(pydict \<times> pyval list) list"
  Others :: pyval

text \<open>
  The world outside the objects: the result files by path, the directories made, the
  paths at which a write fails, and the records the logger has emitted.
\<close>

record world =
  objs :: heap
  files :: "string \<rightharpoonup> result"
  directories :: "string set"
  unwritable :: "string set"
  log :: "log_record list"

definition logger :: "level \<Rightarrow> string \<Rightarrow> exn option \<Rightarrow> world \<Rightarrow> world" where
  "logger lvl msg exc_info w = w\<lparr>log := log w @ [Log lvl msg exc_info]\<rparr>"

text \<open>
  \<^verbatim>\<open>expSetting.run\<close> is abstract: the procedure of the concrete setting is a parameter.
  It receives the setting and acts on the objects (it fits the model and has the metrics
  append to their \<^verbatim>\<open>values\<close>); it returns an auxiliary result or raises.
\<close>

type_synonym setting_run = "ref \<Rightarrow> heap \<Rightarrow> (exn + pyval) \<times> heap"

definition expSetting_setup :: "ref \<Rightarrow> expDataset \<Rightarrow> expModel \<Rightarrow> ref list \<Rightarrow> heap \<Rightarrow> heap" where
  "expSetting_setup self dataset model metrics h =
     h\<lparr>setting_objs := (setting_objs h)
          (self := (setting_objs h self)\<lparr>s_dataset := Some dataset, s_model := Some model,
                                          s_metrics := metrics\<rparr>)\<rparr>"

definition get_metrics_result :: "ref \<Rightarrow> heap \<Rightarrow> (pydict \<times> pyval list) list" where
  "get_metrics_result self h =
     map (\<lambda>metric. (opts (metric_objs h metric), m_values (metric_objs h metric)))
       (s_metrics (setting_objs h self))"

text \<open>
  Modelled from the spec: \<^verbatim>\<open>savepkl\<close> of \<^verbatim>\<open>explib/utils.py\<close>, which persists the
  record at the path or fails with an I/O failure; and \<^verbatim>\<open>_check_dir\<close>, which makes the
  directory if it is absent.
\<close>

definition savepkl :: "result \<Rightarrow> string \<Rightarrow> world \<Rightarrow> exn + world" where
  "savepkl obj filename w =
     (if filename \<in> unwritable w then Inl IOError
      else Inr (w\<lparr>files := (files w)(filename \<mapsto> obj)\<rparr>))"

definition check_dir :: "string \<Rightarrow> world \<Rightarrow> world" where
  "check_dir d w = w\<lparr>directories := insert d (directories w)\<rparr>"

section \<open>expProfile\<close>

definition get_options :: "heap \<Rightarrow> expProfile \<Rightarrow> exn + options" where
  "get_options h self =
     (case p_setting self of
        None \<Rightarrow> Inl (AttributeError (quote ''NoneType'' @ '' object has no attribute '' @ quote ''_opts''))
      | Some s \<Rightarrow>
          Inr \<lparr>o_dataset = opts (p_dataset self), o_model = opts (p_model self),
               o_setting = opts (setting_objs h s),
               o_metrics = map (\<lambda>x. opts (metric_objs h x)) (p_metrics self)\<rparr>)"

text \<open>
  The first lines of \<^verbatim>\<open>expProfile.run\<close>: the options of dataset, model and setting, then
  those of the metrics in list order, each printed, joined by \<^verbatim>\<open>';'\<close> and digested.
  The digest is the file name under \<^verbatim>\<open>save_dir\<close>.
\<close>

definition opts_list :: "options \<Rightarrow> pydict list" where
  "opts_list options = [o_dataset options, o_model options, o_setting options] @ o_metrics options"

definition opts_string :: "options \<Rightarrow> string" where
  "opts_string options = join '';'' (map Option_str (opts_list options))"

definition fingerprint :: "options \<Rightarrow> string" where
  "fingerprint options = md5_hexdigest (opts_string options)"

text \<open>
  The string that \<^verbatim>\<open>run\<close> digests for a profile and the fingerprint it computes, if it
  can gather the options.
\<close>

definition expProfile_string :: "heap \<Rightarrow> expProfile \<Rightarrow> exn + string" where
  "expProfile_string h self =
     (case get_options h self of
        Inl e \<Rightarrow> Inl e
      | Inr options \<Rightarrow> Inr (opts_string options))"

definition expProfile_fingerprint :: "heap \<Rightarrow> expProfile \<Rightarrow> exn + string" where
  "expProfile_fingerprint h self =
     (case get_options h self of
        Inl e \<Rightarrow> Inl e
      | Inr options \<Rightarrow> Inr (fingerprint options))"

definition path_join :: "string \<Rightarrow> string \<Rightarrow> string" where
  "path_join a b =
     (if startswith b ''/'' then b
      else if a = [] \<or> last a = CHR ''/'' then a @ b
      else a @ ''/'' @ b)"

definition path_exists :: "world \<Rightarrow> string \<Rightarrow> bool" where
  "path_exists w filename = (files w filename \<noteq> None)"

text \<open>
  \<^verbatim>\<open>expProfile.run\<close>.  The result is the exception that leaves the call, if any, and the
  world after it.  The options gathered at the start are the ones saved, which supposes
  that the procedure of the setting updates no option in place.  \<open>path_exists\<close> looks
  for a result file; the directories of the world are not among the paths it finds.
\<close>

definition expProfile_run :: "setting_run \<Rightarrow> expProfile \<Rightarrow> world \<Rightarrow> exn option \<times> world" where
  "expProfile_run srun self w =
     (case get_options (objs w) self of
        Inl e \<Rightarrow> (Some e, w)
      | Inr options \<Rightarrow>
          let filename = path_join (p_save_dir self) (fingerprint options) in
          if \<not> p_overwrite self \<and> path_exists w filename
          then (None, logger WARNING (quote filename @ '' already exists, skip.'') None w)
          else
            (case p_setting self of
               None \<Rightarrow> (Some (AttributeError (quote ''NoneType'' @ '' object has no attribute '' @ quote ''setup'')), w)
             | Some s \<Rightarrow>
                 (case srun s (expSetting_setup s (p_dataset self) (p_model self) (p_metrics self) (objs w)) of
                    (Inl e, h) \<Rightarrow> (Some e, w\<lparr>objs := h\<rparr>)
                  | (Inr setting_result, h) \<Rightarrow>
                      (case savepkl \<lparr>Options = options, Metrics = get_metrics_result s h,
                                     Others = setting_result\<rparr> filename (w\<lparr>objs := h\<rparr>) of
                         Inr w' \<Rightarrow> (None, logger INFO (quote filename @ '' saved.'') None w')
                       | Inl IOError \<Rightarrow>
                           (None, logger ERROR (''IOError when saving '' @ quote filename) None (w\<lparr>objs := h\<rparr>))
                       | Inl e \<Rightarrow> (Some e, w\<lparr>objs := h\<rparr>)))))"

section \<open>expEnsemble\<close>

text \<open>
  Modelled from the spec: \<^verbatim>\<open>ParamsGrid\<close> of \<^verbatim>\<open>explib/utils.py\<close>, an enumerable
  collection of parameter sets; its length is their number, it is false as a condition
  when it has none, and the grid made without arguments is the grid of exactly one empty
  parameter set.
\<close>

type_synonym ParamsGrid = "pydict list"

definition ParamsGrid_init :: ParamsGrid where
  "ParamsGrid_init = [[]]"

text \<open>
  \<^verbatim>\<open>imap(lambda para: model(**para), para_grid)\<close> is an iterator object: the class it
  calls and the parameter sets it has not consumed yet.  Consuming it constructs the
  instances one by one and stops at the first construction that raises.
\<close>

record imap_obj =
  im_cls :: string
  im_params :: "pydict list"

fun imap_drain :: "config \<Rightarrow> string \<Rightarrow> pydict list \<Rightarrow> log_record list \<Rightarrow>
    (exn + expBase list) \<times> pydict list \<times> log_record list" where
  "imap_drain cfg c [] lg = (Inr [], [], lg)"
| "imap_drain cfg c (para # rest) lg =
     (case expBase_init cfg c para lg of
        (Inl e, lg') \<Rightarrow> (Inl e, rest, lg')
      | (Inr d, lg') \<Rightarrow>
          (case imap_drain cfg c rest lg' of
             (Inl e, rest', lg'') \<Rightarrow> (Inl e, rest', lg'')
           | (Inr xs, rest', lg'') \<Rightarrow> (Inr (\<lparr>cls = c, opts = d\<rparr> # xs), rest', lg'')))"

text \<open>\<^verbatim>\<open>tuple(chain(*iterators))\<close>, as \<^verbatim>\<open>itertools.product\<close> does to each argument.\<close>

fun chain_drain :: "config \<Rightarrow> imap_obj list \<Rightarrow> log_record list \<Rightarrow>
    (exn + expBase list) \<times> imap_obj list \<times> log_record list" where
  "chain_drain cfg [] lg = (Inr [], [], lg)"
| "chain_drain cfg (im # ims) lg =
     (case imap_drain cfg (im_cls im) (im_params im) lg of
        (Inl e, rest, lg') \<Rightarrow> (Inl e, im\<lparr>im_params := rest\<rparr> # ims, lg')
      | (Inr xs, rest, lg') \<Rightarrow>
          (case chain_drain cfg ims lg' of
             (Inl e, ims', lg'') \<Rightarrow> (Inl e, im\<lparr>im_params := rest\<rparr> # ims', lg'')
           | (Inr ys, ims', lg'') \<Rightarrow> (Inr (xs @ ys), im\<lparr>im_params := rest\<rparr> # ims', lg'')))"

record expEnsemble =
  e_models :: "imap_obj list"
  e_datasets :: "imap_obj list"
  e_metrics :: "ref list"
  e_setting :: "ref option"
  e_save_dir :: string
  e_overwrite :: bool
  n_models :: nat
  n_datasets :: nat

definition expEnsemble_init :: "string \<Rightarrow> bool \<Rightarrow> expEnsemble" where
  "expEnsemble_init save_dir overwrite =
     \<lparr>e_models = [], e_datasets = [], e_metrics = [], e_setting = None,
      e_save_dir = save_dir, e_overwrite = overwrite, n_models = 0, n_datasets = 0\<rparr>"

definition expEnsemble_len :: "expEnsemble \<Rightarrow> nat" where
  "expEnsemble_len self = n_models self * n_datasets self"

definition add_model :: "string \<Rightarrow> ParamsGrid option \<Rightarrow> expEnsemble \<Rightarrow> expEnsemble" where
  "add_model model para_grid self =
     (let para_grid = (case para_grid of
                         None \<Rightarrow> ParamsGrid_init
                       | Some g \<Rightarrow> if g = [] then ParamsGrid_init else g)
      in self\<lparr>e_models := e_models self @ [\<lparr>im_cls = model, im_params = para_grid\<rparr>],
              n_models := n_models self + max 1 (length para_grid)\<rparr>)"

definition add_dataset :: "string \<Rightarrow> ParamsGrid option \<Rightarrow> expEnsemble \<Rightarrow> expEnsemble" where
  "add_dataset dataset para_grid self =
     (let para_grid = (case para_grid of
                         None \<Rightarrow> ParamsGrid_init
                       | Some g \<Rightarrow> if g = [] then ParamsGrid_init else g)
      in self\<lparr>e_datasets := e_datasets self @ [\<lparr>im_cls = dataset, im_params = para_grid\<rparr>],
              n_datasets := n_datasets self + max 1 (length para_grid)\<rparr>)"

definition add_metrics :: "ref list \<Rightarrow> expEnsemble \<Rightarrow> expEnsemble" where
  "add_metrics args self = self\<lparr>e_metrics := e_metrics self @ args\<rparr>"

definition set_setting :: "ref \<Rightarrow> expEnsemble \<Rightarrow> expEnsemble" where
  "set_setting setting self = self\<lparr>e_setting := Some setting\<rparr>"

definition expProfile_init ::
    "expDataset \<Rightarrow> expModel \<Rightarrow> ref list \<Rightarrow> ref option \<Rightarrow> string \<Rightarrow> bool \<Rightarrow> expProfile" where
  "expProfile_init dataset model metrics setting save_dir overwrite =
     \<lparr>p_dataset = dataset, p_model = model, p_metrics = metrics, p_setting = setting,
      p_save_dir = save_dir, p_overwrite = overwrite\<rparr>"

text \<open>
  \<^verbatim>\<open>expEnsemble.__iter__\<close>, run to its end: \<^verbatim>\<open>product\<close> first consumes the chained
  models, then the chained datasets, and then pairs them, the last argument changing
  fastest.  The result is the list of the profiles yielded (or the exception raised), the
  ensemble with its iterators as they are left, and the log.
\<close>

definition expEnsemble_iter :: "config \<Rightarrow> expEnsemble \<Rightarrow> log_record list \<Rightarrow>
    (exn + expProfile list) \<times> expEnsemble \<times> log_record list" where
  "expEnsemble_iter cfg self lg =
     (case chain_drain cfg (e_models self) lg of
        (Inl e, ms, lg') \<Rightarrow> (Inl e, self\<lparr>e_models := ms\<rparr>, lg')
      | (Inr models, ms, lg') \<Rightarrow>
          (case chain_drain cfg (e_datasets self) lg' of
             (Inl e, ds, lg'') \<Rightarrow> (Inl e, self\<lparr>e_models := ms, e_datasets := ds\<rparr>, lg'')
           | (Inr datasets, ds, lg'') \<Rightarrow>
               (Inr (map (\<lambda>(model, dataset).
                        expProfile_init dataset model (e_metrics self) (e_setting self)
                          (e_save_dir self) (e_overwrite self))
                      (List.product models datasets)),
                self\<lparr>e_models := ms, e_datasets := ds\<rparr>, lg'')))"

section \<open>expPool\<close>

text \<open>
  A task is what \<^verbatim>\<open>add\<close> received: one profile, stored as a list of one, or an ensemble.
  The directories are a set, kept as a list without repetition.
\<close>

datatype task = Single expProfile | Group expEnsemble

record expPool =
  n_workers :: int
  tasks :: "task list"
  dirs :: "string list"

definition expPool_init :: "int \<Rightarrow> expPool" where
  "expPool_init n = \<lparr>n_workers = n, tasks = [], dirs = []\<rparr>"

fun task_save_dir :: "task \<Rightarrow> string" where
  "task_save_dir (Single p) = p_save_dir p"
| "task_save_dir (Group e) = e_save_dir e"

fun task_len :: "task \<Rightarrow> nat" where
  "task_len (Single p) = 1"
| "task_len (Group e) = expEnsemble_len e"

definition expPool_add :: "task \<Rightarrow> expPool \<Rightarrow> expPool" where
  "expPool_add profiles self =
     self\<lparr>dirs := List.insert (task_save_dir profiles) (dirs self),
          tasks := tasks self @ [profiles]\<rparr>"

definition expPool_len :: "expPool \<Rightarrow> nat" where
  "expPool_len self = sum_list (map task_len (tasks self))"

text \<open>
  \<^verbatim>\<open>_wrapper\<close>: the call of \<^verbatim>\<open>foo.run()\<close> inside \<^verbatim>\<open>try\<close>, with \<^verbatim>\<open>except BaseException\<close>
  logging the exception.  No exception leaves it.
\<close>

definition wrapper :: "setting_run \<Rightarrow> nat \<times> expProfile \<Rightarrow> world \<Rightarrow> world" where
  "wrapper srun args w =
     (case args of (i, foo) \<Rightarrow>
        let w1 = logger INFO (''Exp '' @ fmt_3d i @ '' Begins...'') None w;
            w2 = (case expProfile_run srun foo w1 of
                    (None, w') \<Rightarrow> w'
                  | (Some e, w') \<Rightarrow> logger ERROR ''Exp %3d:'' (Some e) w')
        in logger INFO (''Exp '' @ fmt_3d i @ '' Done!'') None w2)"

text \<open>\<^verbatim>\<open>list(chain(*self.tasks))\<close>: the profiles of all tasks, ensembles being iterated.\<close>

fun chain_tasks :: "config \<Rightarrow> task list \<Rightarrow> log_record list \<Rightarrow>
    (exn + expProfile list) \<times> task list \<times> log_record list" where
  "chain_tasks cfg [] lg = (Inr [], [], lg)"
| "chain_tasks cfg (Single p # ts) lg =
     (case chain_tasks cfg ts lg of
        (Inl e, ts', lg') \<Rightarrow> (Inl e, Single p # ts', lg')
      | (Inr ps, ts', lg') \<Rightarrow> (Inr (p # ps), Single p # ts', lg'))"
| "chain_tasks cfg (Group e # ts) lg =
     (case expEnsemble_iter cfg e lg of
        (Inl x, e', lg') \<Rightarrow> (Inl x, Group e' # ts, lg')
      | (Inr ps, e', lg') \<Rightarrow>
          (case chain_tasks cfg ts lg' of
             (Inl x, ts', lg'') \<Rightarrow> (Inl x, Group e' # ts', lg'')
           | (Inr qs, ts', lg'') \<Rightarrow> (Inr (ps @ qs), Group e' # ts', lg'')))"

text \<open>
  \<^verbatim>\<open>pool.map\<close> of \<^verbatim>\<open>multiprocessing\<close> lists its argument, cuts the list into chunks of
  \<open>\<lceil>n / (4 * workers)\<rceil>\<close> items and sends each chunk, pickled as one message, to a worker
  process, which applies the function to the items of the chunk in order.
\<close>

definition chunksize :: "nat \<Rightarrow> nat \<Rightarrow> nat" where
  "chunksize n workers =
     (if n mod (workers * 4) = 0 then n div (workers * 4) else n div (workers * 4) + 1)"

function get_tasks :: "nat \<Rightarrow> 'a list \<Rightarrow> 'a list list" where
  "get_tasks n xs =
     (if n = 0 \<or> xs = [] then [] else take n xs # get_tasks n (drop n xs))"
  by pat_completeness auto
termination
  by (relation "measure (\<lambda>(n, xs). length xs)") auto

declare get_tasks.simps [simp del]

text \<open>
  A worker runs its chunk on the copy of the objects that it unpickled.  A chunk is one
  pickle, so the items of a chunk share their copy of a metric or a setting; two chunks do
  not, and the objects of the calling process are never touched: the values that a metric
  collects in a worker are saved with the result and lost with the copy.  What the items
  write to the file system and to the log is kept.
\<close>

definition run_chunk :: "setting_run \<Rightarrow> (nat \<times> expProfile) list \<Rightarrow> world \<Rightarrow> world" where
  "run_chunk srun chunk w = (fold (wrapper srun) chunk w)\<lparr>objs := objs w\<rparr>"

text \<open>
  \<^verbatim>\<open>expPool.run\<close>.  \<^verbatim>\<open>Pool(n)\<close> raises for \<open>n < 1\<close>.  The profiles are listed in the
  calling process, ensembles being iterated there.  The workers run side by side; the model
  takes the chunks in submission order.
\<close>

definition expPool_run :: "config \<Rightarrow> setting_run \<Rightarrow> expPool \<Rightarrow> world \<Rightarrow> exn option \<times> expPool \<times> world" where
  "expPool_run cfg srun self w =
     (let w1 = fold check_dir (dirs self) w;
          w2 = logger INFO (''# Experiments: '' @ fmt_3d (expPool_len self)) None w1
      in if n_workers self < 1
         then (Some (ValueError ''Number of processes must be at least 1''), self, w2)
         else
           (case chain_tasks cfg (tasks self) (log w2) of
              (Inl e, ts, lg) \<Rightarrow> (Some e, self\<lparr>tasks := ts\<rparr>, w2\<lparr>log := lg\<rparr>)
            | (Inr ps, ts, lg) \<Rightarrow>
                (None, self\<lparr>tasks := ts\<rparr>,
                 logger INFO ''All Experiments are Done!'' None
                   (fold (run_chunk srun)
                      (get_tasks (chunksize (length ps) (nat (n_workers self))) (enumerate 0 ps))
                      (w2\<lparr>log := lg\<rparr>)))))"

text \<open>
  What a list of iterators has still to yield: the class and the parameter set of every
  instance, in order; and what it means for an instance to be the one constructed from
  such a pair.
\<close>

definition variants :: "imap_obj list \<Rightarrow> (string \<times> pydict) list" where
  "variants ims = concat (map (\<lambda>im. map (Pair (im_cls im)) (im_params im)) ims)"

definition constructed :: "config \<Rightarrow> string \<times> pydict \<Rightarrow> expBase \<Rightarrow> bool" where
  "constructed cfg v x = (cls x = fst v \<and> fst (expBase_init cfg (fst v) (snd v) []) = Inr (opts x))"

definition exhausted :: "imap_obj \<Rightarrow> imap_obj" where
  "exhausted im = im\<lparr>im_params := []\<rparr>"

section \<open>Building an ensemble\<close>

text \<open>
  The calls by which a driver script builds an ensemble, so that a statement can range
  over every way of building one.  \<open>grid_size\<close> is the size of the grid a call passes,
  with no grid counted as size 0.
\<close>

datatype call =
    AddModel string "ParamsGrid option"
  | AddDataset string "ParamsGrid option"
  | AddMetrics "ref list"
  | SetSetting ref

fun call_apply :: "call \<Rightarrow> expEnsemble \<Rightarrow> expEnsemble" where
  "call_apply (AddModel model para_grid) self = add_model model para_grid self"
| "call_apply (AddDataset dataset para_grid) self = add_dataset dataset para_grid self"
| "call_apply (AddMetrics args) self = add_metrics args self"
| "call_apply (SetSetting setting) self = set_setting setting self"

fun grid_size :: "ParamsGrid option \<Rightarrow> nat" where
  "grid_size None = 0"
| "grid_size (Some g) = length g"

fun model_grids :: "call list \<Rightarrow> ParamsGrid option list" where
  "model_grids [] = []"
| "model_grids (AddModel model para_grid # cs) = para_grid # model_grids cs"
| "model_grids (c # cs) = model_grids cs"

fun dataset_grids :: "call list \<Rightarrow> ParamsGrid option list" where
  "dataset_grids [] = []"
| "dataset_grids (AddDataset dataset para_grid # cs) = para_grid # dataset_grids cs"
| "dataset_grids (c # cs) = dataset_grids cs"

section \<open>Example values\<close>

text \<open>
  A configuration with defaults for one model class and one dataset class, a metric and a
  setting in the heap, and two procedures for the setting: one that has every metric of
  the setting append a value, one that raises.
\<close>

definition ex_cfg :: config where
  "ex_cfg = (\<lambda>_. None)(''expModelKNN'' \<mapsto> [(''k'', PyInt 1)],
                       ''expDatasetIris'' \<mapsto> [(''fold'', PyInt 0)])"

definition ex_metric :: expMetric where
  "ex_metric = \<lparr>cls = ''expMetricAcc'', opts = [(''name'', PyStr ''Acc'')], m_values = []\<rparr>"

definition ex_setting :: expSetting where
  "ex_setting = \<lparr>cls = ''expSettingCV'', opts = [(''folds'', PyInt 5), (''name'', PyStr ''CV'')],
                 s_dataset = None, s_model = None, s_metrics = []\<rparr>"

definition ex_heap :: heap where
  "ex_heap = \<lparr>metric_objs = (\<lambda>_. ex_metric), setting_objs = (\<lambda>_. ex_setting)\<rparr>"

definition ex_world :: world where
  "ex_world = \<lparr>objs = ex_heap, files = Map.empty, directories = {}, unwritable = {}, log = []\<rparr>"

definition ex_srun :: setting_run where
  "ex_srun s h =
     (Inr PyNone,
      h\<lparr>metric_objs :=
           fold (\<lambda>m f. f(m := (f m)\<lparr>m_values := m_values (f m) @ [PyInt 1]\<rparr>))
             (s_metrics (setting_objs h s)) (metric_objs h)\<rparr>)"

definition ex_srun_fail :: setting_run where
  "ex_srun_fail s h = (Inl (Exception ''fit failed''), h)"

definition ex_dataset :: expDataset where
  "ex_dataset = \<lparr>cls = ''expDatasetIris'', opts = [(''fold'', PyInt 0), (''name'', PyStr ''Iris'')]\<rparr>"

definition ex_model :: expModel where
  "ex_model = \<lparr>cls = ''expModelKNN'', opts = [(''k'', PyInt 1), (''name'', PyStr ''KNN'')]\<rparr>"

definition ex_profile :: expProfile where
  "ex_profile = expProfile_init ex_dataset ex_model [0] (Some 0) ''out'' False"

text \<open>
  An ensemble of one model class with a grid of two parameter sets and one dataset class
  with a grid of three, one metric and one setting; the profiles its iteration yields; and
  the ensemble as the iteration leaves it.
\<close>

definition ex_ensemble :: expEnsemble where
  "ex_ensemble =
     add_dataset ''expDatasetIris''
       (Some [[(''fold'', PyInt 0)], [(''fold'', PyInt 1)], [(''fold'', PyInt 2)]])
       (add_model ''expModelKNN'' (Some [[(''k'', PyInt 1)], [(''k'', PyInt 3)]])
          (set_setting 0 (add_metrics [0] (expEnsemble_init ''out'' True))))"

definition ex_variant :: "pyval \<Rightarrow> int \<Rightarrow> expProfile" where
  "ex_variant k f =
     expProfile_init
       \<lparr>cls = ''expDatasetIris'', opts = [(''fold'', PyInt f), (''name'', PyStr ''Iris'')]\<rparr>
       \<lparr>cls = ''expModelKNN'', opts = [(''k'', k), (''name'', PyStr ''KNN'')]\<rparr>
       [0] (Some 0) ''out'' True"

definition ex_profiles :: "expProfile list" where
  "ex_profiles =
     [ex_variant (PyInt 1) 0, ex_variant (PyInt 1) 1, ex_variant (PyInt 1) 2,
      ex_variant (PyInt 3) 0, ex_variant (PyInt 3) 1, ex_variant (PyInt 3) 2]"

definition ex_consumed :: expEnsemble where
  "ex_consumed =
     ex_ensemble\<lparr>e_models := [\<lparr>im_cls = ''expModelKNN'', im_params = []\<rparr>],
                 e_datasets := [\<lparr>im_cls = ''expDatasetIris'', im_params = []\<rparr>]\<rparr>"

definition ex_options :: options where
  "ex_options =
     \<lparr>o_dataset = [(''fold'', PyInt 0), (''name'', PyStr ''Iris'')],
      o_model = [(''k'', PyInt 1), (''name'', PyStr ''KNN'')],
      o_setting = [(''folds'', PyInt 5), (''name'', PyStr ''CV'')],
      o_metrics = [[(''name'', PyStr ''Acc'')]]\<rparr>"

definition ex_filename :: string where
  "ex_filename = path_join ''out'' (fingerprint ex_options)"


text \<open>
  The same ensemble with a model grid whose two parameter sets differ only in the type of
  a value, the integer 1 and the string \<^verbatim>\<open>'1'\<close>; and a heap with two pairs of metrics:
  two whose options differ in the same way, and two whose options print differently, one
  of them holding a string with a \<^verbatim>\<open>';'\<close> in it.
\<close>

definition cx_ensemble :: expEnsemble where
  "cx_ensemble =
     add_dataset ''expDatasetIris''
       (Some [[(''fold'', PyInt 0)], [(''fold'', PyInt 1)], [(''fold'', PyInt 2)]])
       (add_model ''expModelKNN'' (Some [[(''k'', PyInt 1)], [(''k'', PyStr ''1'')]])
          (set_setting 0 (add_metrics [0] (expEnsemble_init ''out'' True))))"

definition cx_profiles :: "expProfile list" where
  "cx_profiles =
     [ex_variant (PyInt 1) 0, ex_variant (PyInt 1) 1, ex_variant (PyInt 1) 2,
      ex_variant (PyStr ''1'') 0, ex_variant (PyStr ''1'') 1, ex_variant (PyStr ''1'') 2]"

definition cx_heap :: heap where
  "cx_heap =
     ex_heap\<lparr>metric_objs := (\<lambda>_. ex_metric)
       (0 := \<lparr>cls = ''expMetricTopK'', opts = [(''k'', PyInt 1), (''name'', PyStr ''TopK'')],
              m_values = []\<rparr>,
        1 := \<lparr>cls = ''expMetricTopK'', opts = [(''k'', PyStr ''1''), (''name'', PyStr ''TopK'')],
              m_values = []\<rparr>,
        2 := \<lparr>cls = ''expMetricA'', opts = [(''name'', PyStr ''a'')], m_values = []\<rparr>,
        3 := \<lparr>cls = ''expMetricA'', opts = [(''name'', PyStr ''a);Option(name=a'')],
              m_values = []\<rparr>)\<rparr>"

text \<open>A heap with two metrics that print differently, and the options of the example
  profile with the two metrics in either order.\<close>

definition ex_heap2 :: heap where
  "ex_heap2 =
     ex_heap\<lparr>metric_objs := (\<lambda>_. ex_metric)
       (1 := \<lparr>cls = ''expMetricF1'', opts = [(''name'', PyStr ''F1'')], m_values = []\<rparr>)\<rparr>"

definition ex_options_01 :: options where
  "ex_options_01 = ex_options\<lparr>o_metrics := [[(''name'', PyStr ''Acc'')], [(''name'', PyStr ''F1'')]]\<rparr>"

definition ex_options_10 :: options where
  "ex_options_10 = ex_options\<lparr>o_metrics := [[(''name'', PyStr ''F1'')], [(''name'', PyStr ''Acc'')]]\<rparr>"

text \<open>
  A pool of two workers with three profiles, the second with a setting of its own and
  \<^verbatim>\<open>overwrite\<close> set, and a procedure that raises for that setting and runs the other; the
  result that the two other profiles save; and the records of a log at level \<^verbatim>\<open>ERROR\<close>.
\<close>

definition ex_srun_mixed :: setting_run where
  "ex_srun_mixed s h = (if s = 1 then ex_srun_fail s h else ex_srun s h)"

definition ex_failing_profile :: expProfile where
  "ex_failing_profile = ex_profile\<lparr>p_setting := Some 1, p_overwrite := True\<rparr>"

definition ex_pool :: expPool where
  "ex_pool =
     expPool_add (Single (ex_profile\<lparr>p_save_dir := ''out2''\<rparr>))
       (expPool_add (Single ex_failing_profile)
          (expPool_add (Single ex_profile) (expPool_init 2)))"

definition ex_result :: result where
  "ex_result = \<lparr>Options = ex_options, Metrics = [([(''name'', PyStr ''Acc'')], [PyInt 1])], Others = PyNone\<rparr>"

definition errors :: "log_record list \<Rightarrow> log_record list" where
  "errors lg = filter (\<lambda>r. case r of Log l msg e \<Rightarrow> l = ERROR) lg"

section \<open>Lemmas on Option.update\<close>

lemma Option_update_all_known:
  "set (map fst kwargs) \<subseteq> set (map fst d) \<Longrightarrow>
     Option_update d kwargs = (None, fold (\<lambda>(k, v). AList.update k v) kwargs d)"
proof (induction kwargs arbitrary: d)
  case Nil
  then show ?case by simp
next
  case (Cons kv kwargs)
  obtain k v where kv: "kv = (k, v)" by (cases kv)
  from Cons.prems kv have k: "k \<in> set (map fst d)" by simp
  then have keys: "map fst (AList.update k v d) = map fst d"
    by (simp add: update_keys)
  from Cons.prems have "set (map fst kwargs) \<subseteq> set (map fst (AList.update k v d))"
    unfolding keys by simp
  from Cons.IH [OF this] k kv show ?case by simp
qed

lemma fold_update_keys:
  "set (map fst kwargs) \<subseteq> set (map fst d) \<Longrightarrow>
     map fst (fold (\<lambda>(k, v). AList.update k v) kwargs d) = map fst d"
proof (induction kwargs arbitrary: d)
  case Nil
  then show ?case by simp
next
  case (Cons kv kwargs)
  obtain k v where kv: "kv = (k, v)" by (cases kv)
  from Cons.prems kv have k: "k \<in> set (map fst d)" by simp
  then have keys: "map fst (AList.update k v d) = map fst d"
    by (simp add: update_keys)
  from Cons.prems have "set (map fst kwargs) \<subseteq> set (map fst (AList.update k v d))"
    unfolding keys by simp
  from Cons.IH [OF this] keys kv show ?case by simp
qed

lemma map_of_fold_update:
  "map_of (fold (\<lambda>(k, v). AList.update k v) kwargs d) = map_of d ++ map_of (rev kwargs)"
proof (induction kwargs arbitrary: d)
  case Nil
  then show ?case by simp
next
  case (Cons kv kwargs)
  obtain k v where kv: "kv = (k, v)" by (cases kv)
  show ?case
    by (rule ext) (simp add: kv Cons.IH update_conv map_add_def split: option.splits)
qed

lemma Option_update_unknown:
  "set (map fst pre) \<subseteq> set (map fst d) \<Longrightarrow> k \<notin> set (map fst d) \<Longrightarrow>
     Option_update d (pre @ (k, v) # post) =
       (Some (KeyError (quote k @ '' is not a valid parameter.'')),
        fold (\<lambda>(k, v). AList.update k v) pre d)"
proof (induction pre arbitrary: d)
  case Nil
  then show ?case by simp
next
  case (Cons kv pre)
  obtain k' v' where kv: "kv = (k', v')" by (cases kv)
  from Cons.prems kv have k': "k' \<in> set (map fst d)" by simp
  then have keys: "map fst (AList.update k' v' d) = map fst d"
    by (simp add: update_keys)
  from Cons.prems have "set (map fst pre) \<subseteq> set (map fst (AList.update k' v' d))"
    and "k \<notin> set (map fst (AList.update k' v' d))"
    unfolding keys by simp_all
  from Cons.IH [OF this] k' kv show ?case by simp
qed

section \<open>Option.update (C7)\<close>

text \<open>
  C7.  \<^verbatim>\<open>Option.update\<close> overwrites the value of every supplied key that is a field of
  the option, and fails with an error naming the offending key as soon as it meets a key
  that is not a field (the source raises \<^verbatim>\<open>KeyError\<close> with the message
  \<^verbatim>\<open>'<key>' is not a valid parameter.\<close>).  When all supplied keys are fields, no error is
  raised, no field is added and every supplied key holds its new value.  When a key is
  unknown, the keys processed before it have been updated and stay so, and nothing after
  it is applied.  An update with a single unknown key leaves the option as it was.
\<close>

theorem Option_update_overwrites_or_rejects:
  "(set (map fst kwargs) \<subseteq> set (map fst d) \<longrightarrow>
       fst (Option_update d kwargs) = None
     \<and> map fst (snd (Option_update d kwargs)) = map fst d
     \<and> map_of (snd (Option_update d kwargs)) = map_of d ++ map_of (rev kwargs))
   \<and> (set (map fst pre) \<subseteq> set (map fst d) \<and> k \<notin> set (map fst d) \<longrightarrow>
       Option_update d (pre @ (k, v) # post) =
         (Some (KeyError (quote k @ '' is not a valid parameter.'')), snd (Option_update d pre)))
   \<and> (k \<notin> set (map fst d) \<longrightarrow>
       Option_update d [(k, v)] = (Some (KeyError (quote k @ '' is not a valid parameter.'')), d))"
  by (simp add: Option_update_all_known Option_update_unknown fold_update_keys map_of_fold_update)

theorem Option_update_overwrites_or_rejects_witness:
  "set (map fst [(''k'', PyInt 3)]) \<subseteq> set (map fst [(''k'', PyInt 1), (''name'', PyStr ''KNN'')])
   \<and> ''zz'' \<notin> set (map fst [(''k'', PyInt 1), (''name'', PyStr ''KNN'')])
   \<and> Option_update [(''k'', PyInt 1), (''name'', PyStr ''KNN'')] [(''k'', PyInt 3)]
       = (None, [(''k'', PyInt 3), (''name'', PyStr ''KNN'')])
   \<and> Option_update [(''k'', PyInt 1), (''name'', PyStr ''KNN'')]
         ([(''k'', PyInt 3)] @ (''zz'', PyInt 0) # [(''name'', PyStr ''X'')])
       = (Some (KeyError (quote ''zz'' @ '' is not a valid parameter.'')),
          [(''k'', PyInt 3), (''name'', PyStr ''KNN'')])
   \<and> Option_update [(''k'', PyInt 1), (''name'', PyStr ''KNN'')] [(''zz'', PyInt 0)]
       = (Some (KeyError (quote ''zz'' @ '' is not a valid parameter.'')),
          [(''k'', PyInt 1), (''name'', PyStr ''KNN'')])"
  using Option_update_overwrites_or_rejects
    [of "[(''k'', PyInt 3)]" "[(''k'', PyInt 1), (''name'', PyStr ''KNN'')]" "[(''k'', PyInt 3)]"
        "''zz''" "PyInt 0" "[(''name'', PyStr ''X'')]"]
  by simp

section \<open>The fingerprint is a function of the rendered options (C1)\<close>

text \<open>
  C1.  For any two profiles (in any heaps) whose dataset, model and setting options print
  to the same strings and whose metric options print to the same strings in the same list
  order, \<^verbatim>\<open>run\<close> computes the same fingerprint: the MD5 hex digest of the printed options
  joined by \<^verbatim>\<open>';'\<close> in the order dataset, model, setting, then each metric.  Which
  instances carry the options plays no role.
\<close>

theorem fingerprint_determined_by_rendering:
  assumes "get_options h1 p1 = Inr o1" and "get_options h2 p2 = Inr o2"
    and "Option_str (o_dataset o1) = Option_str (o_dataset o2)"
    and "Option_str (o_model o1) = Option_str (o_model o2)"
    and "Option_str (o_setting o1) = Option_str (o_setting o2)"
    and "map Option_str (o_metrics o1) = map Option_str (o_metrics o2)"
  shows "fingerprint o1 = fingerprint o2
       \<and> fingerprint o1 =
           md5_hexdigest (join '';'' (Option_str (opts (p_dataset p1)) # Option_str (opts (p_model p1))
              # Option_str (o_setting o1) # map (\<lambda>m. Option_str (opts (metric_objs h1 m))) (p_metrics p1)))"
proof -
  from assms(3-6) have "map Option_str (opts_list o1) = map Option_str (opts_list o2)"
    by (simp add: opts_list_def)
  then have "fingerprint o1 = fingerprint o2"
    by (simp add: fingerprint_def opts_string_def)
  moreover from assms(1) have "map Option_str (opts_list o1) =
      Option_str (opts (p_dataset p1)) # Option_str (opts (p_model p1))
        # Option_str (o_setting o1) # map (\<lambda>m. Option_str (opts (metric_objs h1 m))) (p_metrics p1)"
    by (auto simp: get_options_def opts_list_def comp_def split: option.splits)
  ultimately show ?thesis
    by (simp add: fingerprint_def opts_string_def)
qed

theorem fingerprint_determined_by_rendering_witness:
  "get_options ex_heap ex_profile =
     Inr \<lparr>o_dataset = [(''fold'', PyInt 0), (''name'', PyStr ''Iris'')],
          o_model = [(''k'', PyInt 1), (''name'', PyStr ''KNN'')],
          o_setting = [(''folds'', PyInt 5), (''name'', PyStr ''CV'')],
          o_metrics = [[(''name'', PyStr ''Acc'')]]\<rparr>
   \<and> get_options
        \<lparr>metric_objs = (\<lambda>_. \<lparr>cls = ''Acc2'', opts = [(''name'', PyStr ''Acc'')], m_values = [PyInt 7]\<rparr>),
         setting_objs = (\<lambda>_. \<lparr>cls = ''CV2'', opts = [(''name'', PyStr ''CV''), (''folds'', PyStr ''5'')],
                               s_dataset = None, s_model = None, s_metrics = [3]\<rparr>)\<rparr>
        \<lparr>p_dataset = \<lparr>cls = ''Iris2'', opts = [(''name'', PyStr ''Iris''), (''fold'', PyInt 0)]\<rparr>,
         p_model = \<lparr>cls = ''KNN2'', opts = [(''k'', PyStr ''1''), (''name'', PyStr ''KNN'')]\<rparr>,
         p_metrics = [3], p_setting = Some 5, p_save_dir = ''elsewhere'', p_overwrite = True\<rparr> =
     Inr \<lparr>o_dataset = [(''name'', PyStr ''Iris''), (''fold'', PyInt 0)],
          o_model = [(''k'', PyStr ''1''), (''name'', PyStr ''KNN'')],
          o_setting = [(''name'', PyStr ''CV''), (''folds'', PyStr ''5'')],
          o_metrics = [[(''name'', PyStr ''Acc'')]]\<rparr>
   \<and> fingerprint \<lparr>o_dataset = [(''fold'', PyInt 0), (''name'', PyStr ''Iris'')],
          o_model = [(''k'', PyInt 1), (''name'', PyStr ''KNN'')],
          o_setting = [(''folds'', PyInt 5), (''name'', PyStr ''CV'')],
          o_metrics = [[(''name'', PyStr ''Acc'')]]\<rparr> =
       fingerprint \<lparr>o_dataset = [(''name'', PyStr ''Iris''), (''fold'', PyInt 0)],
          o_model = [(''k'', PyStr ''1''), (''name'', PyStr ''KNN'')],
          o_setting = [(''name'', PyStr ''CV''), (''folds'', PyStr ''5'')],
          o_metrics = [[(''name'', PyStr ''Acc'')]]\<rparr>"
  using fingerprint_determined_by_rendering
    [of ex_heap ex_profile
        "\<lparr>o_dataset = [(''fold'', PyInt 0), (''name'', PyStr ''Iris'')],
          o_model = [(''k'', PyInt 1), (''name'', PyStr ''KNN'')],
          o_setting = [(''folds'', PyInt 5), (''name'', PyStr ''CV'')],
          o_metrics = [[(''name'', PyStr ''Acc'')]]\<rparr>"
        "\<lparr>metric_objs = (\<lambda>_. \<lparr>cls = ''Acc2'', opts = [(''name'', PyStr ''Acc'')], m_values = [PyInt 7]\<rparr>),
         setting_objs = (\<lambda>_. \<lparr>cls = ''CV2'', opts = [(''name'', PyStr ''CV''), (''folds'', PyStr ''5'')],
                               s_dataset = None, s_model = None, s_metrics = [3]\<rparr>)\<rparr>"
        "\<lparr>p_dataset = \<lparr>cls = ''Iris2'', opts = [(''name'', PyStr ''Iris''), (''fold'', PyInt 0)]\<rparr>,
         p_model = \<lparr>cls = ''KNN2'', opts = [(''k'', PyStr ''1''), (''name'', PyStr ''KNN'')]\<rparr>,
         p_metrics = [3], p_setting = Some 5, p_save_dir = ''elsewhere'', p_overwrite = True\<rparr>"
        "\<lparr>o_dataset = [(''name'', PyStr ''Iris''), (''fold'', PyInt 0)],
          o_model = [(''k'', PyStr ''1''), (''name'', PyStr ''KNN'')],
          o_setting = [(''name'', PyStr ''CV''), (''folds'', PyStr ''5'')],
          o_metrics = [[(''name'', PyStr ''Acc'')]]\<rparr>"]
  by (simp add: get_options_def ex_heap_def ex_profile_def expProfile_init_def ex_dataset_def
        ex_model_def ex_metric_def ex_setting_def Option_str_def str_int_def str_nat.simps
        digit_chr_def)

section \<open>The length of an ensemble (C4)\<close>

lemma n_models_fold:
  "n_models (fold call_apply calls e) =
     n_models e + (\<Sum>g\<leftarrow>model_grids calls. max 1 (grid_size g))"
proof (induction calls arbitrary: e)
  case Nil
  then show ?case by simp
next
  case (Cons c calls)
  show ?case
  proof (cases c)
    case (AddModel model para_grid)
    then show ?thesis
      by (cases para_grid)
        (simp_all add: Cons.IH add_model_def ParamsGrid_init_def Let_def)
  qed (simp_all add: Cons.IH add_dataset_def add_metrics_def set_setting_def Let_def)
qed

lemma n_datasets_fold:
  "n_datasets (fold call_apply calls e) =
     n_datasets e + (\<Sum>g\<leftarrow>dataset_grids calls. max 1 (grid_size g))"
proof (induction calls arbitrary: e)
  case Nil
  then show ?case by simp
next
  case (Cons c calls)
  show ?case
  proof (cases c)
    case (AddDataset dataset para_grid)
    then show ?thesis
      by (cases para_grid)
        (simp_all add: Cons.IH add_dataset_def ParamsGrid_init_def Let_def)
  qed (simp_all add: Cons.IH add_model_def add_metrics_def set_setting_def Let_def)
qed

text \<open>
  The length is the product of two counters that start at 0, so an ensemble with no
  dataset source has length 0 whatever models were added, and a fresh ensemble has length
  0, where \<open>max 1 (model grid size) * max 1 (dataset grid size)\<close> is 2 and 1.  With two
  model sources, one with a grid of two parameter sets and one without a grid, and a
  dataset source with a grid of three, the length is \<open>(2 + 1) * 3\<close>.
\<close>

theorem expEnsemble_len_counterexample:
  "expEnsemble_len
     (add_model ''expModelKNN'' (Some [[(''k'', PyInt 1)], [(''k'', PyInt 3)]])
        (expEnsemble_init ''out'' False)) = 0
   \<and> max 1 (grid_size (Some [[(''k'', PyInt 1)], [(''k'', PyInt 3)]])) * max 1 (grid_size None) = 2
   \<and> expEnsemble_len (expEnsemble_init ''out'' False) = 0
   \<and> max 1 (grid_size None) * max 1 (grid_size None) = 1
   \<and> expEnsemble_len
       (add_dataset ''expDatasetIris''
          (Some [[(''fold'', PyInt 0)], [(''fold'', PyInt 1)], [(''fold'', PyInt 2)]])
          (add_model ''expModelSVM'' None
             (add_model ''expModelKNN'' (Some [[(''k'', PyInt 1)], [(''k'', PyInt 3)]])
                (expEnsemble_init ''out'' False)))) = 9"
  by (simp add: expEnsemble_len_def add_model_def add_dataset_def expEnsemble_init_def
        ParamsGrid_init_def Let_def)

text \<open>
  C4, as the code has it.  However an ensemble is built, \<^verbatim>\<open>len\<close> of it is the product
  of the two per-side sums of \<open>max 1 (grid size)\<close> over the model sources and the dataset
  sources added, a call without a grid or with an empty grid counting as size 1.  A side
  without any source has the empty sum 0, and the length is then 0.  For an ensemble built
  by one \<^verbatim>\<open>add_model\<close> and one \<^verbatim>\<open>add_dataset\<close> the product is
  \<open>max 1 (model grid size) * max 1 (dataset grid size)\<close>.  The length is read off the two
  counters; no profile is produced.
\<close>

theorem expEnsemble_len_product_of_sums:
  "expEnsemble_len (fold call_apply calls (expEnsemble_init save_dir overwrite)) =
     (\<Sum>g\<leftarrow>model_grids calls. max 1 (grid_size g)) * (\<Sum>g\<leftarrow>dataset_grids calls. max 1 (grid_size g))
   \<and> expEnsemble_len (add_dataset dataset gd (add_model model gm (expEnsemble_init save_dir overwrite))) =
     max 1 (grid_size gm) * max 1 (grid_size gd)"
proof -
  have sums: "expEnsemble_len (fold call_apply cs (expEnsemble_init save_dir overwrite)) =
      (\<Sum>g\<leftarrow>model_grids cs. max 1 (grid_size g)) * (\<Sum>g\<leftarrow>dataset_grids cs. max 1 (grid_size g))" for cs
    by (simp add: expEnsemble_len_def n_models_fold n_datasets_fold expEnsemble_init_def)
  have "add_dataset dataset gd (add_model model gm (expEnsemble_init save_dir overwrite)) =
      fold call_apply [AddModel model gm, AddDataset dataset gd] (expEnsemble_init save_dir overwrite)"
    by simp
  then have "expEnsemble_len (add_dataset dataset gd (add_model model gm (expEnsemble_init save_dir overwrite))) =
      max 1 (grid_size gm) * max 1 (grid_size gd)"
    by (simp only: sums) simp
  with sums [of calls] show ?thesis by simp
qed

section \<open>expProfile.run: skipping, running and saving (C2, C6)\<close>



lemma run_setting_raises:
  assumes "get_options (objs w) self = Inr options"
    and "p_overwrite self \<or> \<not> path_exists w (path_join (p_save_dir self) (fingerprint options))"
    and "p_setting self = Some s"
    and "srun s (expSetting_setup s (p_dataset self) (p_model self) (p_metrics self) (objs w)) = (Inl e, h)"
  shows "expProfile_run srun self w = (Some e, w\<lparr>objs := h\<rparr>)"
  using assms by (auto simp: expProfile_run_def Let_def)

lemma run_saves:
  assumes "get_options (objs w) self = Inr options"
    and "p_overwrite self \<or> \<not> path_exists w (path_join (p_save_dir self) (fingerprint options))"
    and "p_setting self = Some s"
    and "srun s (expSetting_setup s (p_dataset self) (p_model self) (p_metrics self) (objs w)) = (Inr r, h)"
    and "path_join (p_save_dir self) (fingerprint options) \<notin> unwritable w"
  shows "expProfile_run srun self w =
    (None, w\<lparr>objs := h,
             files := (files w)(path_join (p_save_dir self) (fingerprint options) \<mapsto>
                \<lparr>Options = options, Metrics = get_metrics_result s h, Others = r\<rparr>),
             log := log w @ [Log INFO (quote (path_join (p_save_dir self) (fingerprint options)) @ '' saved.'') None]\<rparr>)"
  using assms by (auto simp: expProfile_run_def savepkl_def logger_def Let_def)

lemma run_save_fails:
  assumes "get_options (objs w) self = Inr options"
    and "p_overwrite self \<or> \<not> path_exists w (path_join (p_save_dir self) (fingerprint options))"
    and "p_setting self = Some s"
    and "srun s (expSetting_setup s (p_dataset self) (p_model self) (p_metrics self) (objs w)) = (Inr r, h)"
    and "path_join (p_save_dir self) (fingerprint options) \<in> unwritable w"
  shows "expProfile_run srun self w =
    (None, w\<lparr>objs := h,
             log := log w @ [Log ERROR (''IOError when saving '' @ quote (path_join (p_save_dir self) (fingerprint options))) None]\<rparr>)"
  using assms by (auto simp: expProfile_run_def savepkl_def logger_def Let_def)

lemma ex_get_options: "get_options ex_heap ex_profile = Inr ex_options"
  by (simp add: get_options_def ex_heap_def ex_profile_def expProfile_init_def ex_dataset_def
        ex_model_def ex_metric_def ex_setting_def ex_options_def)

lemma ex_profile_fields:
  "p_dataset ex_profile = ex_dataset" "p_model ex_profile = ex_model"
  "p_metrics ex_profile = [0]" "p_setting ex_profile = Some 0"
  "p_save_dir ex_profile = ''out''" "p_overwrite ex_profile = False"
  by (simp_all add: ex_profile_def expProfile_init_def)


lemma ex_srun_result:
  "ex_srun 0 (expSetting_setup 0 ex_dataset ex_model [0] ex_heap) =
     (Inr PyNone,
      \<lparr>metric_objs = (\<lambda>_. ex_metric)(0 := ex_metric\<lparr>m_values := [PyInt 1]\<rparr>),
       setting_objs = (\<lambda>_. ex_setting)
         (0 := ex_setting\<lparr>s_dataset := Some ex_dataset, s_model := Some ex_model, s_metrics := [0]\<rparr>)\<rparr>)"
  by (simp add: ex_srun_def expSetting_setup_def ex_heap_def ex_metric_def)

lemma ex_metrics_result:
  "get_metrics_result 0
     \<lparr>metric_objs = (\<lambda>_. ex_metric)(0 := ex_metric\<lparr>m_values := [PyInt 1]\<rparr>),
      setting_objs = (\<lambda>_. ex_setting)
        (0 := ex_setting\<lparr>s_dataset := Some ex_dataset, s_model := Some ex_model, s_metrics := [0]\<rparr>)\<rparr> =
   [([(''name'', PyStr ''Acc'')], [PyInt 1])]"
  by (simp add: get_metrics_result_def ex_metric_def)



text \<open>
  C6.  On the path that runs the setting: when the procedure has returned and the write
  of the record fails with an I/O failure, \<^verbatim>\<open>run\<close> logs the error and returns normally,
  the files being as before.  When the procedure raises, the exception leaves \<^verbatim>\<open>run\<close>
  before any write is attempted: the files and the log are as before.
\<close>

theorem run_save_failure_is_caught:
  assumes "get_options (objs w) self = Inr options"
    and "filename = path_join (p_save_dir self) (fingerprint options)"
    and "p_overwrite self \<or> \<not> path_exists w filename"
    and "p_setting self = Some s"
  shows
    "(srun s (expSetting_setup s (p_dataset self) (p_model self) (p_metrics self) (objs w)) = (Inr r, h)
        \<and> filename \<in> unwritable w \<longrightarrow>
      expProfile_run srun self w =
        (None, w\<lparr>objs := h, log := log w @ [Log ERROR (''IOError when saving '' @ quote filename) None]\<rparr>))
   \<and> (srun s (expSetting_setup s (p_dataset self) (p_model self) (p_metrics self) (objs w)) = (Inl e, h) \<longrightarrow>
      expProfile_run srun self w = (Some e, w\<lparr>objs := h\<rparr>)
      \<and> files (snd (expProfile_run srun self w)) = files w
      \<and> log (snd (expProfile_run srun self w)) = log w)"
  using assms by (simp add: run_save_fails run_setting_raises)

theorem run_save_failure_is_caught_witness:
  "expProfile_run ex_srun ex_profile (ex_world\<lparr>unwritable := {ex_filename}\<rparr>) =
     (None, ex_world\<lparr>objs := snd (ex_srun 0 (expSetting_setup 0 ex_dataset ex_model [0] ex_heap)),
                     unwritable := {ex_filename},
                     log := [Log ERROR (''IOError when saving '' @ quote ex_filename) None]\<rparr>)
   \<and> files (snd (expProfile_run ex_srun ex_profile (ex_world\<lparr>unwritable := {ex_filename}\<rparr>))) = Map.empty
   \<and> expProfile_run ex_srun_fail ex_profile (ex_world\<lparr>unwritable := {ex_filename}\<rparr>) =
       (Some (Exception ''fit failed''),
        ex_world\<lparr>objs := expSetting_setup 0 ex_dataset ex_model [0] ex_heap,
                  unwritable := {ex_filename}\<rparr>)
   \<and> files (snd (expProfile_run ex_srun_fail ex_profile (ex_world\<lparr>unwritable := {ex_filename}\<rparr>))) = Map.empty"
proof -
  let ?w = "ex_world\<lparr>unwritable := {ex_filename}\<rparr>"
  have opts: "get_options (objs ?w) ex_profile = Inr ex_options"
    by (simp add: ex_world_def ex_get_options)
  have name: "ex_filename = path_join (p_save_dir ex_profile) (fingerprint ex_options)"
    by (simp add: ex_filename_def ex_profile_fields)
  have absent: "p_overwrite ex_profile \<or> \<not> path_exists ?w ex_filename"
    by (simp add: path_exists_def ex_world_def)
  have blocked: "ex_filename \<in> unwritable ?w"
    by simp
  have ok: "ex_srun 0 (expSetting_setup 0 (p_dataset ex_profile) (p_model ex_profile)
        (p_metrics ex_profile) (objs ?w)) =
      (Inr PyNone, snd (ex_srun 0 (expSetting_setup 0 ex_dataset ex_model [0] ex_heap)))"
    by (simp add: ex_profile_fields ex_world_def ex_srun_result)
  have bad: "ex_srun_fail 0 (expSetting_setup 0 (p_dataset ex_profile) (p_model ex_profile)
        (p_metrics ex_profile) (objs ?w)) =
      (Inl (Exception ''fit failed''), expSetting_setup 0 ex_dataset ex_model [0] ex_heap)"
    by (simp add: ex_srun_fail_def ex_world_def ex_profile_fields)
  note caught = run_save_failure_is_caught [OF opts name absent ex_profile_fields(4)]
  from caught [of ex_srun PyNone _ "Exception ''x''"] ok blocked
  have one: "expProfile_run ex_srun ex_profile ?w =
      (None, ?w\<lparr>objs := snd (ex_srun 0 (expSetting_setup 0 ex_dataset ex_model [0] ex_heap)),
               log := log ?w @ [Log ERROR (''IOError when saving '' @ quote ex_filename) None]\<rparr>)"
    by blast
  from caught [of ex_srun_fail PyNone _ "Exception ''fit failed''"] bad
  have two: "expProfile_run ex_srun_fail ex_profile ?w =
      (Some (Exception ''fit failed''), ?w\<lparr>objs := expSetting_setup 0 ex_dataset ex_model [0] ex_heap\<rparr>)"
    by blast
  show ?thesis
    unfolding one two by (simp add: ex_world_def)
qed

section \<open>Iterating an ensemble\<close>

lemma expBase_init_log:
  "fst (expBase_init cfg c para lg) = fst (expBase_init cfg c para [])"
  by (simp add: expBase_init_def getDefaultOption_def split: option.splits prod.splits sum.splits)

lemma imap_drain_Inr:
  "imap_drain cfg c ps lg = (Inr xs, rest, lg') \<Longrightarrow>
     rest = [] \<and> list_all2 (constructed cfg) (map (Pair c) ps) xs"
proof (induction ps arbitrary: lg xs)
  case Nil
  then show ?case by simp
next
  case (Cons para ps)
  from Cons.prems obtain d lg1 ys where
    init: "expBase_init cfg c para lg = (Inr d, lg1)" and
    rec: "imap_drain cfg c ps lg1 = (Inr ys, rest, lg')" and
    xs: "xs = \<lparr>cls = c, opts = d\<rparr> # ys"
    by (auto split: prod.splits sum.splits)
  from init have "fst (expBase_init cfg c para []) = Inr d"
    using expBase_init_log [of cfg c para lg] by simp
  with Cons.IH [OF rec] xs show ?case
    by (simp add: constructed_def)
qed

lemma chain_drain_Inr:
  "chain_drain cfg ims lg = (Inr xs, ims', lg') \<Longrightarrow>
     ims' = map exhausted ims \<and> list_all2 (constructed cfg) (variants ims) xs"
proof (induction ims arbitrary: lg xs ims')
  case Nil
  then show ?case by (simp add: variants_def)
next
  case (Cons im ims)
  from Cons.prems obtain ys rest lg1 zs ims1 where
    one: "imap_drain cfg (im_cls im) (im_params im) lg = (Inr ys, rest, lg1)" and
    rec: "chain_drain cfg ims lg1 = (Inr zs, ims1, lg')" and
    xs: "xs = ys @ zs" and ims': "ims' = im\<lparr>im_params := rest\<rparr> # ims1"
    by (auto split: prod.splits sum.splits)
  from imap_drain_Inr [OF one] Cons.IH [OF rec] xs ims' show ?case
    by (auto simp: variants_def exhausted_def intro: list_all2_appendI)
qed

lemma chain_drain_exhausted:
  "chain_drain cfg (map exhausted ims) lg = (Inr [], map exhausted ims, lg)"
  by (induction ims) (simp_all add: exhausted_def)

lemma expEnsemble_iter_Inr:
  assumes "expEnsemble_iter cfg self lg = (Inr ps, self', lg')"
  obtains models datasets lg1 where
    "chain_drain cfg (e_models self) lg = (Inr models, map exhausted (e_models self), lg1)"
    "chain_drain cfg (e_datasets self) lg1 = (Inr datasets, map exhausted (e_datasets self), lg')"
    "ps = concat (map (\<lambda>model. map (\<lambda>dataset.
            expProfile_init dataset model (e_metrics self) (e_setting self)
              (e_save_dir self) (e_overwrite self)) datasets) models)"
    "self' = self\<lparr>e_models := map exhausted (e_models self), e_datasets := map exhausted (e_datasets self)\<rparr>"
proof -
  from assms obtain models ms lg1 datasets ds where
    m: "chain_drain cfg (e_models self) lg = (Inr models, ms, lg1)" and
    d: "chain_drain cfg (e_datasets self) lg1 = (Inr datasets, ds, lg')" and
    ps: "ps = map (\<lambda>(model, dataset).
            expProfile_init dataset model (e_metrics self) (e_setting self)
              (e_save_dir self) (e_overwrite self)) (List.product models datasets)" and
    self': "self' = self\<lparr>e_models := ms, e_datasets := ds\<rparr>"
    by (auto simp: expEnsemble_iter_def split: prod.splits sum.splits)
  from chain_drain_Inr [OF m] chain_drain_Inr [OF d]
  have ms: "ms = map exhausted (e_models self)" and ds: "ds = map exhausted (e_datasets self)"
    by simp_all
  have "map (\<lambda>(model, dataset). f dataset model) (List.product xs ys) =
        concat (map (\<lambda>model. map (\<lambda>dataset. f dataset model) ys) xs)" for f :: "'a \<Rightarrow> 'b \<Rightarrow> 'c" and xs ys
    by (induction xs) simp_all
  with ps have "ps = concat (map (\<lambda>model. map (\<lambda>dataset.
            expProfile_init dataset model (e_metrics self) (e_setting self)
              (e_save_dir self) (e_overwrite self)) datasets) models)"
    by simp
  with m d self' ms ds that show thesis by simp
qed

lemma expEnsemble_iter_again:
  assumes "expEnsemble_iter cfg self lg = (Inr ps, self', lg')"
  shows "expEnsemble_iter cfg self' lg'' = (Inr [], self', lg'')"
proof -
  from assms obtain models datasets lg1 where
    "self' = self\<lparr>e_models := map exhausted (e_models self), e_datasets := map exhausted (e_datasets self)\<rparr>"
    by (rule expEnsemble_iter_Inr)
  then show ?thesis
    by (simp add: expEnsemble_iter_def chain_drain_exhausted)
qed

lemma ex_iter: "expEnsemble_iter ex_cfg ex_ensemble [] = (Inr ex_profiles, ex_consumed, [])"
  by (simp add: expEnsemble_iter_def ex_ensemble_def ex_profiles_def ex_variant_def ex_consumed_def
        add_dataset_def add_model_def set_setting_def add_metrics_def expEnsemble_init_def
        expBase_init_def getDefaultOption_def ex_cfg_def Option_init_def strip_role_def
        startswith_def)

lemma imap_drain_log:
  "fst (imap_drain cfg c ps lg) = fst (imap_drain cfg c ps lg2)
   \<and> fst (snd (imap_drain cfg c ps lg)) = fst (snd (imap_drain cfg c ps lg2))"
proof (induction ps arbitrary: lg lg2)
  case Nil
  show ?case by simp
next
  case (Cons para ps)
  obtain r lg1 where a: "expBase_init cfg c para lg = (r, lg1)" by (cases "expBase_init cfg c para lg")
  obtain r2 lg3 where b: "expBase_init cfg c para lg2 = (r2, lg3)" by (cases "expBase_init cfg c para lg2")
  from a b expBase_init_log [of cfg c para lg] expBase_init_log [of cfg c para lg2]
  have r: "r2 = r" by simp
  show ?case
  proof (cases r)
    case (Inl e)
    with a b r show ?thesis by simp
  next
    case (Inr d)
    from Cons.IH [of lg1 lg3] a b r Inr show ?thesis
      by (cases "imap_drain cfg c ps lg1"; cases "imap_drain cfg c ps lg3")
        (auto split: sum.splits)
  qed
qed

lemma chain_drain_log:
  "fst (chain_drain cfg ims lg) = fst (chain_drain cfg ims lg2)
   \<and> fst (snd (chain_drain cfg ims lg)) = fst (snd (chain_drain cfg ims lg2))"
proof (induction ims arbitrary: lg lg2)
  case Nil
  show ?case by simp
next
  case (Cons im ims)
  obtain r rest lg1 where a: "imap_drain cfg (im_cls im) (im_params im) lg = (r, rest, lg1)"
    by (cases "imap_drain cfg (im_cls im) (im_params im) lg")
  obtain r2 rest2 lg3 where b: "imap_drain cfg (im_cls im) (im_params im) lg2 = (r2, rest2, lg3)"
    by (cases "imap_drain cfg (im_cls im) (im_params im) lg2")
  from a b imap_drain_log [of cfg "im_cls im" "im_params im" lg lg2]
  have r: "r2 = r" "rest2 = rest" by simp_all
  show ?case
  proof (cases r)
    case (Inl e)
    with a b r show ?thesis by simp
  next
    case (Inr xs)
    from Cons.IH [of lg1 lg3] a b r Inr show ?thesis
      by (cases "chain_drain cfg ims lg1"; cases "chain_drain cfg ims lg3")
        (auto split: sum.splits)
  qed
qed

lemma expEnsemble_iter_log:
  "fst (expEnsemble_iter cfg self lg) = fst (expEnsemble_iter cfg self lg2)
   \<and> fst (snd (expEnsemble_iter cfg self lg)) = fst (snd (expEnsemble_iter cfg self lg2))"
proof -
  obtain r ms lg1 where a: "chain_drain cfg (e_models self) lg = (r, ms, lg1)"
    by (cases "chain_drain cfg (e_models self) lg")
  obtain r2 ms2 lg3 where b: "chain_drain cfg (e_models self) lg2 = (r2, ms2, lg3)"
    by (cases "chain_drain cfg (e_models self) lg2")
  from a b chain_drain_log [of cfg "e_models self" lg lg2]
  have r: "r2 = r" "ms2 = ms" by simp_all
  show ?thesis
  proof (cases r)
    case (Inl e)
    with a b r show ?thesis by (simp add: expEnsemble_iter_def)
  next
    case (Inr xs)
    from chain_drain_log [of cfg "e_datasets self" lg1 lg3] a b r Inr show ?thesis
      by (cases "chain_drain cfg (e_datasets self) lg1"; cases "chain_drain cfg (e_datasets self) lg3")
        (auto simp: expEnsemble_iter_def split: sum.splits)
  qed
qed

section \<open>A second iteration yields nothing (C9)\<close>

text \<open>
  The example ensemble yields its six profiles when it is iterated, and no profile when
  it is iterated again: the \<^verbatim>\<open>imap\<close> iterators it holds have been consumed.
\<close>

theorem ensemble_second_iteration_counterexample:
  "expEnsemble_iter ex_cfg ex_ensemble [] = (Inr ex_profiles, ex_consumed, [])
   \<and> length ex_profiles = 6
   \<and> expEnsemble_iter ex_cfg ex_consumed [] = (Inr [], ex_consumed, [])"
proof -
  from expEnsemble_iter_again [OF ex_iter]
  have "expEnsemble_iter ex_cfg ex_consumed [] = (Inr [], ex_consumed, [])" .
  with ex_iter show ?thesis
    by (simp add: ex_profiles_def)
qed

text \<open>
  C9, as the code has it.  The profiles an iteration yields are a function of the
  ensemble's state (whatever the log is), and that state includes how far the lazy
  sequences of models and datasets have been consumed.  An iteration that runs to its end
  leaves every sequence exhausted, so iterating the same ensemble again yields no profile,
  while \<^verbatim>\<open>len\<close> still reports the size it had.
\<close>

theorem ensemble_iteration_consumes:
  assumes "expEnsemble_iter cfg self lg = (Inr ps, self', lg')"
  shows "expEnsemble_iter cfg self' lg'' = (Inr [], self', lg'')
       \<and> self' = self\<lparr>e_models := map exhausted (e_models self),
                       e_datasets := map exhausted (e_datasets self)\<rparr>
       \<and> expEnsemble_len self' = expEnsemble_len self
       \<and> fst (expEnsemble_iter cfg self lg2) = Inr ps
       \<and> fst (snd (expEnsemble_iter cfg self lg2)) = self'"
proof -
  from assms obtain models datasets lg1 where
    self': "self' = self\<lparr>e_models := map exhausted (e_models self),
                         e_datasets := map exhausted (e_datasets self)\<rparr>"
    by (rule expEnsemble_iter_Inr)
  from expEnsemble_iter_log [of cfg self lg2 lg] assms
  have "fst (expEnsemble_iter cfg self lg2) = Inr ps"
    and "fst (snd (expEnsemble_iter cfg self lg2)) = self'"
    by simp_all
  with expEnsemble_iter_again [OF assms, of lg''] self' show ?thesis
    by (simp add: expEnsemble_len_def)
qed

theorem ensemble_iteration_consumes_witness:
  "expEnsemble_iter ex_cfg ex_ensemble [] = (Inr ex_profiles, ex_consumed, [])
   \<and> expEnsemble_iter ex_cfg ex_consumed [] = (Inr [], ex_consumed, [])
   \<and> expEnsemble_len ex_consumed = 6"
proof -
  from ensemble_iteration_consumes [OF ex_iter, of "[]" "[]"]
  have "expEnsemble_iter ex_cfg ex_consumed [] = (Inr [], ex_consumed, [])"
    and "expEnsemble_len ex_consumed = expEnsemble_len ex_ensemble"
    by simp_all
  moreover have "expEnsemble_len ex_ensemble = 6"
    by (simp add: expEnsemble_len_def ex_ensemble_def add_dataset_def add_model_def
          set_setting_def add_metrics_def expEnsemble_init_def)
  ultimately show ?thesis using ex_iter by simp
qed

section \<open>The profiles of an ensemble share its metrics (C10)\<close>

text \<open>
  C10.  Every profile that an ensemble yields carries the ensemble's metric references:
  the same metric objects, not copies.  What the setting reports as metric results after
  \<^verbatim>\<open>setup\<close> for any of the profiles is read from those objects, so the values appended
  during the run of one profile are there during the run of the next.
\<close>

theorem ensemble_profiles_share_metrics:
  assumes "expEnsemble_iter cfg self lg = (Inr ps, self', lg')" and "p \<in> set ps" and "q \<in> set ps"
  shows "p_metrics p = e_metrics self \<and> p_metrics q = p_metrics p
       \<and> get_metrics_result s (expSetting_setup s (p_dataset q) (p_model q) (p_metrics q) h) =
           map (\<lambda>m. (opts (metric_objs h m), m_values (metric_objs h m))) (p_metrics p)"
proof -
  from assms(1) obtain models datasets lg1 where
    ps: "ps = concat (map (\<lambda>model. map (\<lambda>dataset.
            expProfile_init dataset model (e_metrics self) (e_setting self)
              (e_save_dir self) (e_overwrite self)) datasets) models)"
    by (rule expEnsemble_iter_Inr)
  from ps assms(2,3) have "p_metrics p = e_metrics self" and "p_metrics q = e_metrics self"
    by (auto simp: expProfile_init_def)
  then show ?thesis
    by (simp add: get_metrics_result_def expSetting_setup_def)
qed

lemma ex_run_twice:
  "m_values (metric_objs (objs (snd (expProfile_run ex_srun (ex_variant (PyInt 1) 0) ex_world))) 0) = [PyInt 1]
   \<and> m_values (metric_objs (objs (snd (expProfile_run ex_srun (ex_variant (PyInt 1) 1)
          (snd (expProfile_run ex_srun (ex_variant (PyInt 1) 0) ex_world))))) 0) = [PyInt 1, PyInt 1]"
  by (simp add: expProfile_run_def get_options_def ex_variant_def expProfile_init_def Let_def
        ex_world_def ex_heap_def ex_srun_def expSetting_setup_def savepkl_def logger_def
        ex_metric_def ex_setting_def get_metrics_result_def)

theorem ensemble_profiles_share_metrics_witness:
  "expEnsemble_iter ex_cfg ex_ensemble [] = (Inr ex_profiles, ex_consumed, [])
   \<and> ex_variant (PyInt 1) 0 \<in> set ex_profiles \<and> ex_variant (PyInt 1) 1 \<in> set ex_profiles
   \<and> p_metrics (ex_variant (PyInt 1) 0) = e_metrics ex_ensemble
   \<and> p_metrics (ex_variant (PyInt 1) 1) = p_metrics (ex_variant (PyInt 1) 0)
   \<and> m_values (metric_objs (objs ex_world) 0) = []
   \<and> m_values (metric_objs (objs (snd (expProfile_run ex_srun (ex_variant (PyInt 1) 0) ex_world))) 0) = [PyInt 1]
   \<and> m_values (metric_objs (objs (snd (expProfile_run ex_srun (ex_variant (PyInt 1) 1)
          (snd (expProfile_run ex_srun (ex_variant (PyInt 1) 0) ex_world))))) 0) = [PyInt 1, PyInt 1]"
proof -
  have mem: "ex_variant (PyInt 1) 0 \<in> set ex_profiles" "ex_variant (PyInt 1) 1 \<in> set ex_profiles"
    by (simp_all add: ex_profiles_def)
  from ensemble_profiles_share_metrics [OF ex_iter mem, of 0 ex_heap]
  have "p_metrics (ex_variant (PyInt 1) 0) = e_metrics ex_ensemble"
    and "p_metrics (ex_variant (PyInt 1) 1) = p_metrics (ex_variant (PyInt 1) 0)"
    by simp_all
  moreover have "m_values (metric_objs (objs ex_world) 0) = []"
    by (simp add: ex_world_def ex_heap_def ex_metric_def)
  ultimately show ?thesis
    using ex_iter mem ex_run_twice by simp
qed

section \<open>Evaluating MD5 and the renderings of the examples\<close>

text \<open>
  The digests of the strings that the examples render to, computed by rewriting; the
  additions of a step are normalised as they appear, which keeps the terms small.
\<close>

lemma upt64: "[0..<64] = [0,1,2,3,4,5,6,7,8,9,10,11,12,13,14,15,16,17,18,19,20,21,22,23,24,25,26,27,28,29,30,31,32,33,34,35,36,37,38,39,40,41,42,43,44,45,46,47,48,49,50,51,52,53,54,55,56,57,58,59,60,61,62,63]"
  by code_simp

lemma replicate_numeral: "replicate (numeral k) x = x # replicate (pred_numeral k) x"
  by (simp add: numeral_eq_Suc)

lemma md5_step_eval:
  "md5_step M (a, b, c, d) i =
     (d, take_bit 32 (b + rotl32 (md5_s ! i) (take_bit 32 (md5_F i b c d + a + md5_K ! i + M ! md5_g i))), b, c)"
  by (simp add: md5_step_def take_bit_word_eq_self)

lemma md5_block_eval:
  "md5_block (a0, b0, c0, d0) M =
     (case foldl (md5_step M) (a0, b0, c0, d0) [0..<64] of
        (a, b, c, d) \<Rightarrow> (take_bit 32 (a0 + a), take_bit 32 (b0 + b), take_bit 32 (c0 + c), take_bit 32 (d0 + d)))"
  by (simp add: md5_block_def take_bit_word_eq_self split: prod.splits)

lemmas md5_eval = md5_hexdigest_def md5_digest_def md5_pad_def md5_length_def md5_blocks.simps
  md5_block_eval md5_step_eval md5_F_def md5_g_def md5_K_def md5_s_def rotl32_def upt64
  replicate_numeral hex_word_def hex_byte_def hexdigit_def Let_def

lemma md5_ex_10:
  "md5_hexdigest ''Option(fold=0, name=Iris);Option(k=1, name=KNN);Option(folds=5, name=CV);Option(name=Acc)'' =
     ''6579396e4802b64222b05d57a2a66446''"
  by (simp add: md5_eval)

lemma md5_ex_11:
  "md5_hexdigest ''Option(fold=1, name=Iris);Option(k=1, name=KNN);Option(folds=5, name=CV);Option(name=Acc)'' =
     ''b2a2dd36ed43631ffc82e4c6350e33d2''"
  by (simp add: md5_eval)

lemma md5_ex_12:
  "md5_hexdigest ''Option(fold=2, name=Iris);Option(k=1, name=KNN);Option(folds=5, name=CV);Option(name=Acc)'' =
     ''4dc8d98da57a0c1c6330bc0f9c31e672''"
  by (simp add: md5_eval)

lemma md5_ex_30:
  "md5_hexdigest ''Option(fold=0, name=Iris);Option(k=3, name=KNN);Option(folds=5, name=CV);Option(name=Acc)'' =
     ''2a4c74716b0f040f4b2a42fc8057dd43''"
  by (simp add: md5_eval)

lemma md5_ex_31:
  "md5_hexdigest ''Option(fold=1, name=Iris);Option(k=3, name=KNN);Option(folds=5, name=CV);Option(name=Acc)'' =
     ''57a76d04172ef32b08ff0609bba57de8''"
  by (simp add: md5_eval)

lemma md5_ex_32:
  "md5_hexdigest ''Option(fold=2, name=Iris);Option(k=3, name=KNN);Option(folds=5, name=CV);Option(name=Acc)'' =
     ''882a2b0d5ae94ed9443f107f1896f6f4''"
  by (simp add: md5_eval)

lemma md5_ex_acc_f1:
  "md5_hexdigest ''Option(fold=0, name=Iris);Option(k=1, name=KNN);Option(folds=5, name=CV);Option(name=Acc);Option(name=F1)'' =
     ''2c949ad0d1468c0c064b096636cc6902''"
  by (simp add: md5_eval)

lemma md5_ex_f1_acc:
  "md5_hexdigest ''Option(fold=0, name=Iris);Option(k=1, name=KNN);Option(folds=5, name=CV);Option(name=F1);Option(name=Acc)'' =
     ''30328fc5b874784f63b500e72d44c8ab''"
  by (simp add: md5_eval)

lemma ex_strings:
  "Option_str [(''fold'', PyInt 0), (''name'', PyStr ''Iris'')] = ''Option(fold=0, name=Iris)''"
  "Option_str [(''fold'', PyInt 1), (''name'', PyStr ''Iris'')] = ''Option(fold=1, name=Iris)''"
  "Option_str [(''fold'', PyInt 2), (''name'', PyStr ''Iris'')] = ''Option(fold=2, name=Iris)''"
  "Option_str [(''k'', PyInt 1), (''name'', PyStr ''KNN'')] = ''Option(k=1, name=KNN)''"
  "Option_str [(''k'', PyInt 3), (''name'', PyStr ''KNN'')] = ''Option(k=3, name=KNN)''"
  "Option_str [(''k'', PyStr ''1''), (''name'', PyStr ''KNN'')] = ''Option(k=1, name=KNN)''"
  "Option_str [(''folds'', PyInt 5), (''name'', PyStr ''CV'')] = ''Option(folds=5, name=CV)''"
  "Option_str [(''name'', PyStr ''Acc'')] = ''Option(name=Acc)''"
  "Option_str [(''name'', PyStr ''F1'')] = ''Option(name=F1)''"
  "Option_str [(''k'', PyInt 1), (''name'', PyStr ''TopK'')] = ''Option(k=1, name=TopK)''"
  "Option_str [(''k'', PyStr ''1''), (''name'', PyStr ''TopK'')] = ''Option(k=1, name=TopK)''"
  "Option_str [(''name'', PyStr ''a'')] = ''Option(name=a)''"
  "Option_str [(''name'', PyStr ''a);Option(name=a'')] = ''Option(name=a);Option(name=a)''"
  by (simp_all add: Option_str_def str_int_def str_nat.simps digit_chr_def)

section \<open>The separator and the rendered options\<close>

lemma join_Cons: "xs \<noteq> [] \<Longrightarrow> join sep (x # xs) = x @ sep @ join sep xs"
  by (cases xs) simp_all

lemma split_at_sep:
  "c \<notin> set x \<Longrightarrow> c \<notin> set y \<Longrightarrow> x @ c # r = y @ c # r' \<Longrightarrow> x = y \<and> r = r'"
proof (induction x arbitrary: y)
  case Nil
  then show ?case by (cases y) auto
next
  case (Cons a x)
  then show ?case by (cases y) auto
qed

lemma join_inj:
  "length xs = length ys \<Longrightarrow> \<forall>x\<in>set xs. c \<notin> set x \<Longrightarrow> \<forall>y\<in>set ys. c \<notin> set y \<Longrightarrow>
     join [c] xs = join [c] ys \<Longrightarrow> xs = ys"
proof (induction xs ys rule: list_induct2)
  case Nil
  show ?case by simp
next
  case (Cons x xs y ys)
  show ?case
  proof (cases "xs = []")
    case True
    with Cons.hyps Cons.prems show ?thesis by simp
  next
    case False
    with Cons.hyps have "ys \<noteq> []" by auto
    with False Cons.prems(3) have "x @ c # join [c] xs = y @ c # join [c] ys"
      by (simp add: join_Cons)
    moreover from Cons.prems have "c \<notin> set x" "c \<notin> set y" by simp_all
    ultimately have "x = y" and "join [c] xs = join [c] ys"
      using split_at_sep [of c x y "join [c] xs" "join [c] ys"] by blast+
    with Cons.IH Cons.prems show ?thesis by simp
  qed
qed

lemma opts_string_split:
  "opts_string options =
     Option_str (o_dataset options) @ CHR '';'' #
       (Option_str (o_model options) @ CHR '';'' #
          join '';'' (Option_str (o_setting options) # map Option_str (o_metrics options)))"
  by (simp add: opts_string_def opts_list_def)

lemma opts_string_metrics_inj:
  assumes "o_dataset o1 = o_dataset o2" "o_model o1 = o_model o2" "o_setting o1 = o_setting o2"
    and "length (o_metrics o1) = length (o_metrics o2)"
    and "\<forall>m\<in>set (o_metrics o1). CHR '';'' \<notin> set (Option_str m)"
    and "\<forall>m\<in>set (o_metrics o2). CHR '';'' \<notin> set (Option_str m)"
    and "opts_string o1 = opts_string o2"
  shows "map Option_str (o_metrics o1) = map Option_str (o_metrics o2)"
proof (cases "o_metrics o1 = []")
  case True
  with assms(4) show ?thesis by simp
next
  case False
  with assms(4) have "o_metrics o2 \<noteq> []" by auto
  with False assms(1-3,7)
  have "join '';'' (map Option_str (o_metrics o1)) = join '';'' (map Option_str (o_metrics o2))"
    by (simp add: opts_string_split join_Cons)
  with assms(4-6) show ?thesis
    by (intro join_inj [of _ _ "CHR '';''"]) simp_all
qed

lemma opts_string_variant_inj:
  assumes "o_setting o1 = o_setting o2" "o_metrics o1 = o_metrics o2"
    and "CHR '';'' \<notin> set (Option_str (o_dataset o1))"
    and "CHR '';'' \<notin> set (Option_str (o_dataset o2))"
    and "opts_string o1 = opts_string o2"
  shows "Option_str (o_dataset o1) = Option_str (o_dataset o2)
       \<and> Option_str (o_model o1) = Option_str (o_model o2)"
proof -
  from assms(1,2,5)
  have "Option_str (o_dataset o1) @ CHR '';'' # Option_str (o_model o1) =
        Option_str (o_dataset o2) @ CHR '';'' # Option_str (o_model o2)"
    by (simp add: opts_string_split)
  from split_at_sep [OF assms(3,4) this] show ?thesis .
qed

lemma profile_strings:
  assumes "p_setting p = Some s"
  shows "expProfile_string h p =
           Inr (opts_string \<lparr>o_dataset = opts (p_dataset p), o_model = opts (p_model p),
                             o_setting = opts (setting_objs h s),
                             o_metrics = map (\<lambda>x. opts (metric_objs h x)) (p_metrics p)\<rparr>)"
    and "expProfile_fingerprint h p = map_sum id md5_hexdigest (expProfile_string h p)"
  using assms
  by (simp_all add: expProfile_string_def expProfile_fingerprint_def get_options_def fingerprint_def)

lemma fingerprints_distinct:
  assumes same: "\<forall>p\<in>set ps. p_setting p = Some s \<and> p_metrics p = ms"
    and keys: "distinct (map (\<lambda>p. (Option_str (opts (p_model p)), Option_str (opts (p_dataset p)))) ps)"
    and semi: "\<forall>p\<in>set ps. CHR '';'' \<notin> set (Option_str (opts (p_dataset p)))"
    and md5: "inj_on (map_sum id md5_hexdigest) (expProfile_string h ` set ps)"
  shows "distinct (map (expProfile_fingerprint h) ps)"
proof -
  let ?key = "\<lambda>p. (Option_str (opts (p_model p)), Option_str (opts (p_dataset p)))"
  from keys have dist: "distinct ps" and inj: "inj_on ?key (set ps)"
    by (simp_all add: distinct_map)
  have "inj_on (expProfile_fingerprint h) (set ps)"
  proof (rule inj_onI)
    fix p q
    assume p: "p \<in> set ps" and q: "q \<in> set ps"
      and eq: "expProfile_fingerprint h p = expProfile_fingerprint h q"
    from same p q have sp: "p_setting p = Some s" and sq: "p_setting q = Some s"
      and mp: "p_metrics p = ms" and mq: "p_metrics q = ms"
      by simp_all
    from eq have "map_sum id md5_hexdigest (expProfile_string h p) =
        map_sum id md5_hexdigest (expProfile_string h q)"
      by (simp add: profile_strings(2) [OF sp] profile_strings(2) [OF sq])
    from inj_onD [OF md5 this] p q
    have "expProfile_string h p = expProfile_string h q" by simp
    then have "opts_string \<lparr>o_dataset = opts (p_dataset p), o_model = opts (p_model p),
                             o_setting = opts (setting_objs h s),
                             o_metrics = map (\<lambda>x. opts (metric_objs h x)) ms\<rparr> =
               opts_string \<lparr>o_dataset = opts (p_dataset q), o_model = opts (p_model q),
                             o_setting = opts (setting_objs h s),
                             o_metrics = map (\<lambda>x. opts (metric_objs h x)) ms\<rparr>"
      by (simp add: profile_strings(1) [OF sp] profile_strings(1) [OF sq] mp mq)
    from opts_string_variant_inj [OF _ _ _ _ this] semi p q
    have "?key p = ?key q" by simp
    with inj p q show "p = q" by (simp add: inj_on_def)
  qed
  with dist show ?thesis by (simp add: distinct_map)
qed

section \<open>Reordering the metrics (C8)\<close>

text \<open>
  The fingerprint is computed from what the options print, and two lists of metric
  options can print to one string.  Metrics 0 and 1 of \<open>cx_heap\<close> have the options
  \<^verbatim>\<open>k=1\<close>, an integer, and \<^verbatim>\<open>k='1'\<close>, a string: they differ and print alike, and the
  profiles with the metrics in the orders 0, 1 and 1, 0 have one fingerprint.  Metrics 2
  and 3 print differently, the name of metric 3 holding the separator: in either order the
  two join to the same string, and the fingerprints are equal again.
\<close>

theorem reordered_metrics_counterexample:
  "opts (metric_objs cx_heap 0) \<noteq> opts (metric_objs cx_heap 1)
   \<and> expProfile_fingerprint cx_heap (ex_profile\<lparr>p_metrics := [0, 1]\<rparr>) =
       expProfile_fingerprint cx_heap (ex_profile\<lparr>p_metrics := [1, 0]\<rparr>)
   \<and> Option_str (opts (metric_objs cx_heap 2)) \<noteq> Option_str (opts (metric_objs cx_heap 3))
   \<and> expProfile_fingerprint cx_heap (ex_profile\<lparr>p_metrics := [2, 3]\<rparr>) =
       expProfile_fingerprint cx_heap (ex_profile\<lparr>p_metrics := [3, 2]\<rparr>)"
  by (simp add: cx_heap_def ex_heap_def expProfile_fingerprint_def get_options_def ex_profile_def
        expProfile_init_def fingerprint_def opts_string_def opts_list_def ex_strings
        ex_dataset_def ex_model_def ex_setting_def)

text \<open>
  C8, as the code has it.  Two profiles with the same dataset, model and setting options
  and the same metric options in two orders have different fingerprints, provided that
  the two orders differ in what they print (the lists of printed metric options are
  different), that no printed metric option contains the separator \<^verbatim>\<open>';'\<close>, and that
  MD5 does not collide on the two joined strings.
\<close>

theorem reordered_metrics_change_fingerprint:
  assumes "get_options h1 p1 = Inr o1" and "get_options h2 p2 = Inr o2"
    and "o_dataset o1 = o_dataset o2" and "o_model o1 = o_model o2"
    and "o_setting o1 = o_setting o2"
    and "mset (o_metrics o1) = mset (o_metrics o2)"
    and "map Option_str (o_metrics o1) \<noteq> map Option_str (o_metrics o2)"
    and "\<forall>m\<in>set (o_metrics o1). CHR '';'' \<notin> set (Option_str m)"
    and "inj_on md5_hexdigest {opts_string o1, opts_string o2}"
  shows "fingerprint o1 \<noteq> fingerprint o2"
proof
  assume "fingerprint o1 = fingerprint o2"
  then have "md5_hexdigest (opts_string o1) = md5_hexdigest (opts_string o2)"
    by (simp add: fingerprint_def)
  from inj_onD [OF assms(9) this] have same: "opts_string o1 = opts_string o2"
    by simp
  from assms(6) have len: "length (o_metrics o1) = length (o_metrics o2)"
    by (rule mset_eq_length)
  from assms(6) have "set (o_metrics o1) = set (o_metrics o2)"
    by (rule mset_eq_setD)
  with assms(8) have "\<forall>m\<in>set (o_metrics o2). CHR '';'' \<notin> set (Option_str m)"
    by simp
  from opts_string_metrics_inj [OF assms(3-5) len assms(8) this same] assms(7)
  show False by simp
qed

lemma ex_options_strings:
  "opts_string ex_options_01 =
     ''Option(fold=0, name=Iris);Option(k=1, name=KNN);Option(folds=5, name=CV);Option(name=Acc);Option(name=F1)''"
  "opts_string ex_options_10 =
     ''Option(fold=0, name=Iris);Option(k=1, name=KNN);Option(folds=5, name=CV);Option(name=F1);Option(name=Acc)''"
  by (simp_all add: opts_string_def opts_list_def ex_options_01_def ex_options_10_def
        ex_options_def ex_strings)

theorem reordered_metrics_change_fingerprint_witness:
  "get_options ex_heap2 (ex_profile\<lparr>p_metrics := [0, 1]\<rparr>) = Inr ex_options_01
   \<and> get_options ex_heap2 (ex_profile\<lparr>p_metrics := [1, 0]\<rparr>) = Inr ex_options_10
   \<and> mset (o_metrics ex_options_01) = mset (o_metrics ex_options_10)
   \<and> fingerprint ex_options_01 = ''2c949ad0d1468c0c064b096636cc6902''
   \<and> fingerprint ex_options_10 = ''30328fc5b874784f63b500e72d44c8ab''
   \<and> fingerprint ex_options_01 \<noteq> fingerprint ex_options_10"
proof -
  have g1: "get_options ex_heap2 (ex_profile\<lparr>p_metrics := [0, 1]\<rparr>) = Inr ex_options_01"
    and g2: "get_options ex_heap2 (ex_profile\<lparr>p_metrics := [1, 0]\<rparr>) = Inr ex_options_10"
    by (simp_all add: get_options_def ex_heap2_def ex_heap_def ex_profile_def expProfile_init_def
          ex_options_01_def ex_options_10_def ex_options_def ex_dataset_def ex_model_def
          ex_setting_def ex_metric_def)
  have same: "o_dataset ex_options_01 = o_dataset ex_options_10"
    "o_model ex_options_01 = o_model ex_options_10"
    "o_setting ex_options_01 = o_setting ex_options_10"
    by (simp_all add: ex_options_01_def ex_options_10_def)
  have perm: "mset (o_metrics ex_options_01) = mset (o_metrics ex_options_10)"
    by (simp add: ex_options_01_def ex_options_10_def)
  have differ: "map Option_str (o_metrics ex_options_01) \<noteq> map Option_str (o_metrics ex_options_10)"
    by (simp add: ex_options_01_def ex_options_10_def ex_strings)
  have semi: "\<forall>m\<in>set (o_metrics ex_options_01). CHR '';'' \<notin> set (Option_str m)"
    by (simp add: ex_options_01_def ex_strings)
  have digests: "fingerprint ex_options_01 = ''2c949ad0d1468c0c064b096636cc6902''"
    "fingerprint ex_options_10 = ''30328fc5b874784f63b500e72d44c8ab''"
    by (simp_all add: fingerprint_def ex_options_strings md5_ex_acc_f1 md5_ex_f1_acc)
  have inj: "inj_on md5_hexdigest {opts_string ex_options_01, opts_string ex_options_10}"
    by (simp add: ex_options_strings md5_ex_acc_f1 md5_ex_f1_acc)
  from reordered_metrics_change_fingerprint [OF g1 g2 same perm differ semi inj] g1 g2 perm digests
  show ?thesis by simp
qed

section \<open>The profiles of an iteration (C5)\<close>

lemma variants_append:
  "variants (xs @ [im]) = variants xs @ map (Pair (im_cls im)) (im_params im)"
  by (simp add: variants_def)

lemma variants_add_model:
  "length (variants (e_models (add_model model para_grid e))) =
     length (variants (e_models e)) + max 1 (grid_size para_grid)"
proof (cases para_grid)
  case None
  then show ?thesis
    by (simp add: add_model_def ParamsGrid_init_def variants_append)
next
  case (Some g)
  then show ?thesis
    by (cases "g = []") (simp_all add: add_model_def ParamsGrid_init_def variants_append Suc_leI)
qed

lemma variants_add_model_datasets:
  "variants (e_datasets (add_model model para_grid e)) = variants (e_datasets e)"
  by (simp add: add_model_def Let_def)

lemma variants_add_dataset:
  "length (variants (e_datasets (add_dataset dataset para_grid e))) =
     length (variants (e_datasets e)) + max 1 (grid_size para_grid)"
proof (cases para_grid)
  case None
  then show ?thesis
    by (simp add: add_dataset_def ParamsGrid_init_def variants_append)
next
  case (Some g)
  then show ?thesis
    by (cases "g = []") (simp_all add: add_dataset_def ParamsGrid_init_def variants_append Suc_leI)
qed

lemma variants_add_dataset_models:
  "variants (e_models (add_dataset dataset para_grid e)) = variants (e_models e)"
  by (simp add: add_dataset_def Let_def)

lemma variants_fold_models:
  "length (variants (e_models (fold call_apply calls e))) =
     length (variants (e_models e)) + (\<Sum>g\<leftarrow>model_grids calls. max 1 (grid_size g))"
proof (induction calls arbitrary: e)
  case Nil
  then show ?case by simp
next
  case (Cons c calls)
  show ?case
    by (cases c)
      (simp_all add: Cons.IH variants_add_model variants_add_dataset_models add_metrics_def
         set_setting_def)
qed

lemma variants_fold_datasets:
  "length (variants (e_datasets (fold call_apply calls e))) =
     length (variants (e_datasets e)) + (\<Sum>g\<leftarrow>dataset_grids calls. max 1 (grid_size g))"
proof (induction calls arbitrary: e)
  case Nil
  then show ?case by simp
next
  case (Cons c calls)
  show ?case
    by (cases c)
      (simp_all add: Cons.IH variants_add_dataset variants_add_model_datasets add_metrics_def
         set_setting_def)
qed

lemma fresh_ensemble_len:
  "expEnsemble_len (fold call_apply calls (expEnsemble_init save_dir overwrite)) =
     length (variants (e_models (fold call_apply calls (expEnsemble_init save_dir overwrite))))
   * length (variants (e_datasets (fold call_apply calls (expEnsemble_init save_dir overwrite))))"
  unfolding expEnsemble_len_def n_models_fold n_datasets_fold variants_fold_models
    variants_fold_datasets
  by (simp add: expEnsemble_init_def variants_def)

lemma length_cross:
  "length (concat (map (\<lambda>x. map (f x) ys) xs)) = length xs * length ys"
  by (induction xs) simp_all

lemma cx_iter: "expEnsemble_iter ex_cfg cx_ensemble [] =
    (Inr cx_profiles,
     cx_ensemble\<lparr>e_models := map exhausted (e_models cx_ensemble),
                 e_datasets := map exhausted (e_datasets cx_ensemble)\<rparr>, [])"
  by (simp add: expEnsemble_iter_def cx_ensemble_def cx_profiles_def ex_variant_def exhausted_def
        add_dataset_def add_model_def set_setting_def add_metrics_def expEnsemble_init_def
        expBase_init_def getDefaultOption_def ex_cfg_def Option_init_def strip_role_def
        startswith_def)

text \<open>
  An ensemble with one model class and a grid of two parameter sets, \<^verbatim>\<open>k=1\<close> and
  \<^verbatim>\<open>k='1'\<close>, and one dataset class with a grid of three: its length is 6 and its
  iteration yields six profiles, but the first and the fourth, whose models have different
  options, have the same fingerprint.
\<close>

theorem distinct_fingerprints_counterexample:
  "expEnsemble_len cx_ensemble = 6
   \<and> fst (expEnsemble_iter ex_cfg cx_ensemble []) = Inr cx_profiles
   \<and> length cx_profiles = 6
   \<and> opts (p_model (cx_profiles ! 0)) \<noteq> opts (p_model (cx_profiles ! 3))
   \<and> expProfile_fingerprint ex_heap (cx_profiles ! 0) = expProfile_fingerprint ex_heap (cx_profiles ! 3)
   \<and> \<not> distinct (map (expProfile_fingerprint ex_heap) cx_profiles)"
proof -
  have len: "expEnsemble_len cx_ensemble = 6"
    by (simp add: expEnsemble_len_def cx_ensemble_def add_dataset_def add_model_def
          set_setting_def add_metrics_def expEnsemble_init_def)
  have same: "expProfile_fingerprint ex_heap (ex_variant (PyInt 1) 0) =
      expProfile_fingerprint ex_heap (ex_variant (PyStr ''1'') 0)"
    by (simp add: expProfile_fingerprint_def get_options_def ex_variant_def expProfile_init_def
          fingerprint_def opts_string_def opts_list_def ex_strings)
  then have "\<not> distinct (map (expProfile_fingerprint ex_heap) cx_profiles)"
    by (simp add: cx_profiles_def)
  with len same cx_iter show ?thesis
    by (simp add: cx_profiles_def ex_variant_def expProfile_init_def)
qed

text \<open>
  C5, as the code has it.  An iteration that returns yields, for each model variant in
  the order they were added and for each dataset variant in turn, a profile made of the
  component constructed for the pair and of the ensemble's metrics, setting, save
  directory and overwrite flag.  The number of profiles is the number of model variants
  times the number of dataset variants, which is \<^verbatim>\<open>len\<close> for an ensemble that has not
  been iterated before.  Their fingerprints are pairwise distinct provided that the
  ensemble has a setting, that the pairs of printed model and dataset options are pairwise
  distinct, that no printed dataset option contains the separator \<^verbatim>\<open>';'\<close>, and that MD5
  does not collide on the strings the profiles print to.
\<close>

theorem ensemble_iteration_cross_product:
  assumes "expEnsemble_iter cfg self lg = (Inr ps, self', lg')"
  shows "(\<exists>models datasets.
            list_all2 (constructed cfg) (variants (e_models self)) models
          \<and> list_all2 (constructed cfg) (variants (e_datasets self)) datasets
          \<and> ps = concat (map (\<lambda>model. map (\<lambda>dataset.
                    expProfile_init dataset model (e_metrics self) (e_setting self)
                      (e_save_dir self) (e_overwrite self)) datasets) models))
       \<and> length ps = length (variants (e_models self)) * length (variants (e_datasets self))
       \<and> (self = fold call_apply calls (expEnsemble_init save_dir overwrite) \<longrightarrow>
            length ps = expEnsemble_len self)
       \<and> (e_setting self \<noteq> None
            \<and> distinct (map (\<lambda>p. (Option_str (opts (p_model p)), Option_str (opts (p_dataset p)))) ps)
            \<and> (\<forall>p\<in>set ps. CHR '';'' \<notin> set (Option_str (opts (p_dataset p))))
            \<and> inj_on (map_sum id md5_hexdigest) (expProfile_string h ` set ps) \<longrightarrow>
            distinct (map (expProfile_fingerprint h) ps))"
proof -
  from assms obtain models datasets lg1 where
    m: "chain_drain cfg (e_models self) lg = (Inr models, map exhausted (e_models self), lg1)" and
    d: "chain_drain cfg (e_datasets self) lg1 = (Inr datasets, map exhausted (e_datasets self), lg')" and
    ps: "ps = concat (map (\<lambda>model. map (\<lambda>dataset.
            expProfile_init dataset model (e_metrics self) (e_setting self)
              (e_save_dir self) (e_overwrite self)) datasets) models)"
    by (rule expEnsemble_iter_Inr)
  from chain_drain_Inr [OF m] chain_drain_Inr [OF d]
  have cm: "list_all2 (constructed cfg) (variants (e_models self)) models"
    and cd: "list_all2 (constructed cfg) (variants (e_datasets self)) datasets"
    by simp_all
  from cm cd have lens: "length models = length (variants (e_models self))"
    "length datasets = length (variants (e_datasets self))"
    by (simp_all add: list_all2_lengthD)
  from ps lens have len: "length ps = length (variants (e_models self)) * length (variants (e_datasets self))"
    by (simp add: length_cross)
  have ex: "\<exists>models datasets.
            list_all2 (constructed cfg) (variants (e_models self)) models
          \<and> list_all2 (constructed cfg) (variants (e_datasets self)) datasets
          \<and> ps = concat (map (\<lambda>model. map (\<lambda>dataset.
                    expProfile_init dataset model (e_metrics self) (e_setting self)
                      (e_save_dir self) (e_overwrite self)) datasets) models)"
    by (intro exI conjI) (rule cm, rule cd, rule ps)
  have fresh: "self = fold call_apply calls (expEnsemble_init save_dir overwrite) \<longrightarrow>
      length ps = expEnsemble_len self"
    using len fresh_ensemble_len [of calls save_dir overwrite] by simp
  have dist: "e_setting self \<noteq> None
        \<and> distinct (map (\<lambda>p. (Option_str (opts (p_model p)), Option_str (opts (p_dataset p)))) ps)
        \<and> (\<forall>p\<in>set ps. CHR '';'' \<notin> set (Option_str (opts (p_dataset p))))
        \<and> inj_on (map_sum id md5_hexdigest) (expProfile_string h ` set ps) \<longrightarrow>
      distinct (map (expProfile_fingerprint h) ps)"
  proof (intro impI, elim conjE)
    assume set: "e_setting self \<noteq> None"
      and keys: "distinct (map (\<lambda>p. (Option_str (opts (p_model p)), Option_str (opts (p_dataset p)))) ps)"
      and semi: "\<forall>p\<in>set ps. CHR '';'' \<notin> set (Option_str (opts (p_dataset p)))"
      and md5: "inj_on (map_sum id md5_hexdigest) (expProfile_string h ` set ps)"
    from set obtain s where s: "e_setting self = Some s" by auto
    from ps s have "\<forall>p\<in>set ps. p_setting p = Some s \<and> p_metrics p = e_metrics self"
      by (auto simp: expProfile_init_def)
    from fingerprints_distinct [OF this keys semi md5]
    show "distinct (map (expProfile_fingerprint h) ps)" .
  qed
  from ex len fresh dist show ?thesis
    by (intro conjI)
qed

lemma ex_profile_strings:
  "expProfile_string ex_heap (ex_variant (PyInt 1) 0) =
     Inr ''Option(fold=0, name=Iris);Option(k=1, name=KNN);Option(folds=5, name=CV);Option(name=Acc)''"
  "expProfile_string ex_heap (ex_variant (PyInt 1) 1) =
     Inr ''Option(fold=1, name=Iris);Option(k=1, name=KNN);Option(folds=5, name=CV);Option(name=Acc)''"
  "expProfile_string ex_heap (ex_variant (PyInt 1) 2) =
     Inr ''Option(fold=2, name=Iris);Option(k=1, name=KNN);Option(folds=5, name=CV);Option(name=Acc)''"
  "expProfile_string ex_heap (ex_variant (PyInt 3) 0) =
     Inr ''Option(fold=0, name=Iris);Option(k=3, name=KNN);Option(folds=5, name=CV);Option(name=Acc)''"
  "expProfile_string ex_heap (ex_variant (PyInt 3) 1) =
     Inr ''Option(fold=1, name=Iris);Option(k=3, name=KNN);Option(folds=5, name=CV);Option(name=Acc)''"
  "expProfile_string ex_heap (ex_variant (PyInt 3) 2) =
     Inr ''Option(fold=2, name=Iris);Option(k=3, name=KNN);Option(folds=5, name=CV);Option(name=Acc)''"
  by (simp_all add: expProfile_string_def get_options_def ex_variant_def expProfile_init_def
        ex_heap_def ex_setting_def ex_metric_def opts_string_def opts_list_def ex_strings)

lemma ex_digests_inj:
  "inj_on (map_sum id md5_hexdigest) (expProfile_string ex_heap ` set ex_profiles)"
  by (simp add: ex_profiles_def ex_profile_strings inj_on_def md5_ex_10 md5_ex_11 md5_ex_12
        md5_ex_30 md5_ex_31 md5_ex_32)

lemma ex_keys:
  "distinct (map (\<lambda>p. (Option_str (opts (p_model p)), Option_str (opts (p_dataset p)))) ex_profiles)"
  "\<forall>p\<in>set ex_profiles. CHR '';'' \<notin> set (Option_str (opts (p_dataset p)))"
  by (simp_all add: ex_profiles_def ex_variant_def expProfile_init_def ex_strings)

lemma ex_ensemble_calls:
  "ex_ensemble =
     fold call_apply
       [AddMetrics [0], SetSetting 0,
        AddModel ''expModelKNN'' (Some [[(''k'', PyInt 1)], [(''k'', PyInt 3)]]),
        AddDataset ''expDatasetIris''
          (Some [[(''fold'', PyInt 0)], [(''fold'', PyInt 1)], [(''fold'', PyInt 2)]])]
       (expEnsemble_init ''out'' True)"
  by (simp add: ex_ensemble_def)

theorem ensemble_iteration_cross_product_witness:
  "expEnsemble_iter ex_cfg ex_ensemble [] = (Inr ex_profiles, ex_consumed, [])
   \<and> length ex_profiles = 6
   \<and> expEnsemble_len ex_ensemble = 6
   \<and> map (\<lambda>p. (opts (p_model p), opts (p_dataset p))) ex_profiles =
       [([(''k'', PyInt 1), (''name'', PyStr ''KNN'')], [(''fold'', PyInt 0), (''name'', PyStr ''Iris'')]),
        ([(''k'', PyInt 1), (''name'', PyStr ''KNN'')], [(''fold'', PyInt 1), (''name'', PyStr ''Iris'')]),
        ([(''k'', PyInt 1), (''name'', PyStr ''KNN'')], [(''fold'', PyInt 2), (''name'', PyStr ''Iris'')]),
        ([(''k'', PyInt 3), (''name'', PyStr ''KNN'')], [(''fold'', PyInt 0), (''name'', PyStr ''Iris'')]),
        ([(''k'', PyInt 3), (''name'', PyStr ''KNN'')], [(''fold'', PyInt 1), (''name'', PyStr ''Iris'')]),
        ([(''k'', PyInt 3), (''name'', PyStr ''KNN'')], [(''fold'', PyInt 2), (''name'', PyStr ''Iris'')])]
   \<and> distinct (map (expProfile_fingerprint ex_heap) ex_profiles)"
proof -
  note T = ensemble_iteration_cross_product [OF ex_iter,
      of "[AddMetrics [0], SetSetting 0,
           AddModel ''expModelKNN'' (Some [[(''k'', PyInt 1)], [(''k'', PyInt 3)]]),
           AddDataset ''expDatasetIris''
             (Some [[(''fold'', PyInt 0)], [(''fold'', PyInt 1)], [(''fold'', PyInt 2)]])]"
         "''out''" True ex_heap]
  have setting: "e_setting ex_ensemble \<noteq> None"
    by (simp add: ex_ensemble_def add_dataset_def add_model_def set_setting_def Let_def)
  from T ex_ensemble_calls have len: "length ex_profiles = expEnsemble_len ex_ensemble"
    by blast
  from T setting ex_keys ex_digests_inj
  have dist: "distinct (map (expProfile_fingerprint ex_heap) ex_profiles)"
    by blast
  have six: "length ex_profiles = 6"
    by (simp add: ex_profiles_def)
  from ex_iter len dist six show ?thesis
    by (simp add: ex_profiles_def ex_variant_def expProfile_init_def)
qed

section \<open>A failing task in a pool (C3)\<close>

lemma ex_failing_fields:
  "p_dataset ex_failing_profile = ex_dataset" "p_model ex_failing_profile = ex_model"
  "p_metrics ex_failing_profile = [0]" "p_setting ex_failing_profile = Some 1"
  "p_save_dir ex_failing_profile = ''out''" "p_overwrite ex_failing_profile = True"
  by (simp_all add: ex_failing_profile_def ex_profile_def expProfile_init_def)

lemma ex_failing_options: "get_options ex_heap ex_failing_profile = Inr ex_options"
  by (simp add: get_options_def ex_heap_def ex_failing_profile_def ex_profile_def expProfile_init_def ex_dataset_def
        ex_model_def ex_metric_def ex_setting_def ex_options_def)

lemma ex_pool_fields:
  "tasks ex_pool = [Single ex_profile, Single ex_failing_profile, Single (ex_profile\<lparr>p_save_dir := ''out2''\<rparr>)]"
  "n_workers ex_pool = 2" "dirs ex_pool = [''out2'', ''out'']"
  by (simp_all add: ex_pool_def expPool_add_def expPool_init_def ex_profile_fields ex_failing_fields)

lemma ex_chunks:
  "chunksize (Suc (Suc (Suc 0))) (Suc (Suc 0)) = Suc 0"
  "get_tasks (Suc 0) [a, b, c] = [[a], [b], [c]]"
  by (simp_all add: chunksize_def get_tasks.simps)

lemma ex_fingerprint: "fingerprint ex_options = ''6579396e4802b64222b05d57a2a66446''"
  by (simp add: fingerprint_def opts_string_def opts_list_def ex_options_def ex_strings md5_ex_10)

lemma wrapper_returns:
  assumes "expProfile_run srun foo (logger INFO (''Exp '' @ fmt_3d i @ '' Begins...'') None w) = (None, w')"
  shows "wrapper srun (i, foo) w = logger INFO (''Exp '' @ fmt_3d i @ '' Done!'') None w'"
  using assms by (simp add: wrapper_def)

lemma wrapper_raises:
  assumes "expProfile_run srun foo (logger INFO (''Exp '' @ fmt_3d i @ '' Begins...'') None w) = (Some e, w')"
  shows "wrapper srun (i, foo) w =
    logger INFO (''Exp '' @ fmt_3d i @ '' Done!'') None (logger ERROR ''Exp %3d:'' (Some e) w')"
  using assms by (simp add: wrapper_def)

lemma ex_srun_mixed_result:
  "ex_srun_mixed 0 (expSetting_setup 0 ex_dataset ex_model [0] ex_heap) =
     (Inr PyNone,
      \<lparr>metric_objs = (\<lambda>_. ex_metric)(0 := ex_metric\<lparr>m_values := [PyInt 1]\<rparr>),
       setting_objs = (\<lambda>_. ex_setting)
         (0 := ex_setting\<lparr>s_dataset := Some ex_dataset, s_model := Some ex_model, s_metrics := [0]\<rparr>)\<rparr>)"
  "ex_srun_mixed (Suc 0) h = (Inl (Exception ''fit failed''), h)"
  by (simp_all add: ex_srun_mixed_def ex_srun_result ex_srun_fail_def)

lemma ex_chunk_saves:
  assumes "objs w = ex_heap" and "files w (path_join d ''6579396e4802b64222b05d57a2a66446'') = None"
    and "path_join d ''6579396e4802b64222b05d57a2a66446'' \<notin> unwritable w"
  shows "run_chunk ex_srun_mixed [(i, ex_profile\<lparr>p_save_dir := d\<rparr>)] w =
    w\<lparr>files := (files w)(path_join d ''6579396e4802b64222b05d57a2a66446'' \<mapsto> ex_result),
      log := log w @
        [Log INFO (''Exp '' @ fmt_3d i @ '' Begins...'') None,
         Log INFO (quote (path_join d ''6579396e4802b64222b05d57a2a66446'') @ '' saved.'') None,
         Log INFO (''Exp '' @ fmt_3d i @ '' Done!'') None]\<rparr>"
proof -
  let ?p = "ex_profile\<lparr>p_save_dir := d\<rparr>"
  let ?w = "logger INFO (''Exp '' @ fmt_3d i @ '' Begins...'') None w"
  have opts: "get_options (objs ?w) ?p = Inr ex_options"
    using ex_get_options assms(1) by (simp add: logger_def get_options_def split: option.splits)
  have setting: "p_setting ?p = Some 0"
    by (simp add: ex_profile_fields)
  have run: "expProfile_run ex_srun_mixed ?p ?w =
    (None, ?w\<lparr>objs := \<lparr>metric_objs = (\<lambda>_. ex_metric)(0 := ex_metric\<lparr>m_values := [PyInt 1]\<rparr>),
       setting_objs = (\<lambda>_. ex_setting)
         (0 := ex_setting\<lparr>s_dataset := Some ex_dataset, s_model := Some ex_model, s_metrics := [0]\<rparr>)\<rparr>,
             files := (files ?w)(path_join (p_save_dir ?p) (fingerprint ex_options) \<mapsto>
                \<lparr>Options = ex_options, Metrics = get_metrics_result 0 \<lparr>metric_objs = (\<lambda>_. ex_metric)(0 := ex_metric\<lparr>m_values := [PyInt 1]\<rparr>),
       setting_objs = (\<lambda>_. ex_setting)
         (0 := ex_setting\<lparr>s_dataset := Some ex_dataset, s_model := Some ex_model, s_metrics := [0]\<rparr>)\<rparr>, Others = PyNone\<rparr>),
             log := log ?w @ [Log INFO (quote (path_join (p_save_dir ?p) (fingerprint ex_options)) @ '' saved.'') None]\<rparr>)"
    using assms by (intro run_saves [OF opts _ setting])
      (simp_all add: ex_profile_fields ex_fingerprint path_exists_def logger_def ex_srun_mixed_result)
  show ?thesis
    by (simp add: run_chunk_def wrapper_returns [OF run] ex_metrics_result ex_result_def
          ex_fingerprint logger_def)
qed

lemma ex_chunk_raises:
  assumes "objs w = ex_heap"
  shows "run_chunk ex_srun_mixed [(i, ex_failing_profile)] w =
    w\<lparr>log := log w @
        [Log INFO (''Exp '' @ fmt_3d i @ '' Begins...'') None,
         Log ERROR ''Exp %3d:'' (Some (Exception ''fit failed'')),
         Log INFO (''Exp '' @ fmt_3d i @ '' Done!'') None]\<rparr>"
proof -
  let ?w = "logger INFO (''Exp '' @ fmt_3d i @ '' Begins...'') None w"
  have opts: "get_options (objs ?w) ex_failing_profile = Inr ex_options"
    using ex_failing_options assms by (simp add: logger_def)
  have run: "expProfile_run ex_srun_mixed ex_failing_profile ?w =
      (Some (Exception ''fit failed''),
       ?w\<lparr>objs := expSetting_setup 1 ex_dataset ex_model [0] ex_heap\<rparr>)"
    using assms by (intro run_setting_raises [OF opts _ ex_failing_fields(4)])
      (simp_all add: ex_failing_fields logger_def ex_srun_mixed_result)
  show ?thesis
    by (simp add: run_chunk_def wrapper_raises [OF run] logger_def)
qed

lemma ex_paths:
  "path_join ''out'' ''6579396e4802b64222b05d57a2a66446'' = ''out/6579396e4802b64222b05d57a2a66446''"
  "path_join ''out2'' ''6579396e4802b64222b05d57a2a66446'' = ''out2/6579396e4802b64222b05d57a2a66446''"
  by (simp_all add: path_join_def startswith_def)

lemma ex_fmt_3d:
  "fmt_3d 0 = ''  0''" "fmt_3d (Suc 0) = ''  1''" "fmt_3d (Suc (Suc 0)) = ''  2''"
  "fmt_3d (Suc (Suc (Suc 0))) = ''  3''"
  by (simp_all add: fmt_3d_def str_nat.simps digit_chr_def numeral_2_eq_2)

text \<open>
  C3.  A pool of two workers runs three profiles, of which the second raises in the
  procedure of its setting.  \<^verbatim>\<open>run\<close> of the pool returns normally; the first and the third
  profile save their results; the objects of the caller are unchanged.  The exception is
  caught in \<^verbatim>\<open>_wrapper\<close> and logged at level \<^verbatim>\<open>ERROR\<close>, but the message of that record is
  the format string \<^verbatim>\<open>'Exp %3d:'\<close> itself: the index is not applied to it, as it is in
  the two records around it, so the record is the same for every index.
\<close>

theorem pool_error_record_lacks_index:
  "expPool_run ex_cfg ex_srun_mixed ex_pool ex_world =
     (None, ex_pool,
      \<lparr>objs = ex_heap,
       files = [''out/6579396e4802b64222b05d57a2a66446'' \<mapsto> ex_result,
                ''out2/6579396e4802b64222b05d57a2a66446'' \<mapsto> ex_result],
       directories = {''out'', ''out2''},
       unwritable = {},
       log = [Log INFO ''# Experiments:   3'' None,
              Log INFO ''Exp   0 Begins...'' None,
              Log INFO (quote ''out/6579396e4802b64222b05d57a2a66446'' @ '' saved.'') None,
              Log INFO ''Exp   0 Done!'' None,
              Log INFO ''Exp   1 Begins...'' None,
              Log ERROR ''Exp %3d:'' (Some (Exception ''fit failed'')),
              Log INFO ''Exp   1 Done!'' None,
              Log INFO ''Exp   2 Begins...'' None,
              Log INFO (quote ''out2/6579396e4802b64222b05d57a2a66446'' @ '' saved.'') None,
              Log INFO ''Exp   2 Done!'' None,
              Log INFO ''All Experiments are Done!'' None]\<rparr>)
   \<and> (\<forall>i. errors (log (run_chunk ex_srun_mixed [(i, ex_failing_profile)] ex_world)) =
            [Log ERROR ''Exp %3d:'' (Some (Exception ''fit failed''))])"
proof -
  have chain: "chain_tasks ex_cfg (tasks ex_pool) lg =
      (Inr [ex_profile, ex_failing_profile, ex_profile\<lparr>p_save_dir := ''out2''\<rparr>], tasks ex_pool, lg)" for lg
    by (simp add: ex_pool_fields)
  have len: "expPool_len ex_pool = 3"
    by (simp add: expPool_len_def ex_pool_fields)
  have same: "ex_profile\<lparr>p_save_dir := ''out''\<rparr> = ex_profile"
    by (simp add: ex_profile_def expProfile_init_def)
  have run: "expPool_run ex_cfg ex_srun_mixed ex_pool ex_world = (None, ex_pool,
      logger INFO ''All Experiments are Done!'' None
        (run_chunk ex_srun_mixed [(Suc (Suc 0), ex_profile\<lparr>p_save_dir := ''out2''\<rparr>)]
          (run_chunk ex_srun_mixed [(Suc 0, ex_failing_profile)]
            (run_chunk ex_srun_mixed [(0, ex_profile\<lparr>p_save_dir := ''out''\<rparr>)]
              (logger INFO ''# Experiments:   3'' None
                 (ex_world\<lparr>directories := {''out'', ''out2''}\<rparr>))))))"
    by (simp add: expPool_run_def chain len ex_chunks same Let_def ex_pool_fields check_dir_def
          fmt_3d_def str_nat.simps digit_chr_def logger_def enumerate_eq_zip ex_world_def numeral_2_eq_2)
  show ?thesis
    unfolding run
    by (simp add: ex_chunk_saves ex_chunk_raises ex_paths logger_def ex_world_def ex_fmt_3d
          errors_def)
qed

end
